theory Spec2Isabelle
  imports Complex_Main "HOL-Library.Word" "HOL-Library.AList"
begin

section \<open>Python values at the request boundary\<close>

text \<open>
  The route handlers of \<^verbatim>\<open>app.py\<close> work on what \<^verbatim>\<open>request.get_json()\<close> returns: an
  arbitrary JSON document as a Python object. A JSON number is an \<^verbatim>\<open>int\<close> or a
  \<^verbatim>\<open>float\<close>; every finite double is a rational, and Python's parser also accepts
  \<^verbatim>\<open>NaN\<close> and the infinities. A Python \<^verbatim>\<open>dict\<close> is an association list read with
  \<open>map_of\<close>.
\<close>

type_synonym byte = "8 word"

text \<open>A raised exception is represented by \<^verbatim>\<open>str(e)\<close>, the only part the handlers use.\<close>

type_synonym exn = string

datatype pyfloat = Finite rat | PosInf | NegInf | NaN

datatype json =
    JNull
  | JBool bool
  | JInt int
  | JFloat pyfloat
  | JStr string
  | JArr "json list"
  | JObj "(string \<times> json) list"

text \<open>Python truthiness, as tested by \<^verbatim>\<open>not x\<close>.\<close>

fun truthy :: "json \<Rightarrow> bool" where
  "truthy JNull = False"
| "truthy (JBool b) = b"
| "truthy (JInt n) = (n \<noteq> 0)"
| "truthy (JFloat (Finite r)) = (r \<noteq> 0)"
| "truthy (JFloat _) = True"
| "truthy (JStr s) = (s \<noteq> [])"
| "truthy (JArr xs) = (xs \<noteq> [])"
| "truthy (JObj kvs) = (kvs \<noteq> [])"

fun type_name :: "json \<Rightarrow> string" where
  "type_name JNull = ''NoneType''"
| "type_name (JBool _) = ''bool''"
| "type_name (JInt _) = ''int''"
| "type_name (JFloat _) = ''float''"
| "type_name (JStr _) = ''str''"
| "type_name (JArr _) = ''list''"
| "type_name (JObj _) = ''dict''"

text \<open>
  \<^verbatim>\<open>data.get\<close>: only a dict has the method; on anything else the attribute lookup
  raises AttributeError.
\<close>

definition quoted :: "string \<Rightarrow> string" where
  "quoted s = CHR 0x27 # s @ [CHR 0x27]"

fun attr_get :: "json \<Rightarrow> exn + (string \<times> json) list" where
  "attr_get (JObj kvs) = Inr kvs"
| "attr_get v = Inl (quoted (type_name v) @ '' object has no attribute '' @ quoted ''get'')"

definition dict_get_default :: "(string \<times> json) list \<Rightarrow> string \<Rightarrow> json \<Rightarrow> json" where
  "dict_get_default kvs k d = (case map_of kvs k of None \<Rightarrow> d | Some v \<Rightarrow> v)"

definition dict_get :: "(string \<times> json) list \<Rightarrow> string \<Rightarrow> json" where
  "dict_get kvs k = dict_get_default kvs k JNull"

section \<open>Requests, responses and the world the handlers run in\<close>

text \<open>A request is what \<^verbatim>\<open>request.get_json()\<close> returns or raises.\<close>

record request =
  get_json :: "exn + json"

record response =
  status :: nat
  body :: json

definition jsonify :: "nat \<Rightarrow> json \<Rightarrow> response" where
  "jsonify code v = \<lparr>status = code, body = v\<rparr>"

definition error_body :: "string \<Rightarrow> json" where
  "error_body msg = JObj [(''error'', JStr msg)]"

text \<open>
  The directory of \<^verbatim>\<open>app.py\<close> (\<^verbatim>\<open>Path(__file__).parent\<close>) is a flat listing, in
  the order the operating system enumerates it, of file names with their modification
  time and content. A file's content is represented by what \<^verbatim>\<open>json.load\<close> returns
  on it (or raises).
\<close>

record stored_file =
  mtime :: nat
  content :: "exn + json"

type_synonym directory = "(string \<times> stored_file) list"

text \<open>The calls to collaborators and to the file system, in the order they happen.\<close>

datatype event =
    RevokeExpired
  | IsAccessAllowed json json
  | GrantAccess json json int
  | RunSearch json json json
  | Glob
  | ReadFile string
  | WriteFile string

record 'g world =
  am :: 'g
  files :: directory
  clock :: nat
  rng :: nat
  trace :: "event list"

text \<open>
  Code of the repository that is not part of \<^verbatim>\<open>app.py\<close> (the modules
  \<^verbatim>\<open>access_manager\<close>, \<^verbatim>\<open>cli_search\<close>, \<^verbatim>\<open>encrypt_utils\<close>), the configuration and the
  library calls whose results the handlers only pass on, are parameters of the model.
  \<open>'g\<close> is the state of the access manager, \<open>'k\<close> the type of a derived key.
  Every call may raise. The random generator is a stream \<open>entropy\<close> read at the
  position \<open>rng\<close> of the world.

  \<open>am_grant_access\<close> is \<^verbatim>\<open>access_manager.grant_access\<close> (the route handler bears the
  name \<open>grant_access\<close>); \<open>json_dumps_utf8\<close> is \<^verbatim>\<open>json.dumps(...).encode("utf-8")\<close>;
  \<open>int_of_str\<close> is \<^verbatim>\<open>int()\<close> on a \<^verbatim>\<open>str\<close> and \<open>str_of\<close> is \<^verbatim>\<open>str()\<close> on a value
  that is not a \<^verbatim>\<open>str\<close>; \<open>ENCRYPT_PASSPHRASE\<close> is the module constant of that name.
\<close>

record ('g, 'k) env =
  revoke_expired :: "'g \<Rightarrow> (exn + unit) \<times> 'g"
  is_access_allowed :: "json \<Rightarrow> json \<Rightarrow> 'g \<Rightarrow> (exn + bool) \<times> 'g"
  am_grant_access :: "json \<Rightarrow> json \<Rightarrow> int \<Rightarrow> 'g \<Rightarrow> (exn + json) \<times> 'g"
  run_search :: "json \<Rightarrow> json \<Rightarrow> json \<Rightarrow> exn + json"
  derive_kek :: "string \<Rightarrow> byte list \<Rightarrow> exn + 'k"
  encrypt_with_key :: "'k \<Rightarrow> byte list \<Rightarrow> nat \<Rightarrow> (exn + string) \<times> nat"
  ENCRYPT_PASSPHRASE :: string
  entropy :: "nat \<Rightarrow> byte"
  json_dumps_utf8 :: "json \<Rightarrow> exn + byte list"
  b64decode :: "string \<Rightarrow> exn + byte list"
  int_of_str :: "string \<Rightarrow> exn + int"
  str_of :: "json \<Rightarrow> string"

subsection \<open>Sequencing with exceptions\<close>

type_synonym ('s, 'a) action = "'s \<Rightarrow> (exn + 'a) \<times> 's"

definition ret :: "'a \<Rightarrow> ('s, 'a) action" where
  "ret x s = (Inr x, s)"

definition lift :: "exn + 'a \<Rightarrow> ('s, 'a) action" where
  "lift r s = (r, s)"

definition bind :: "('s, 'a) action \<Rightarrow> ('a \<Rightarrow> ('s, 'b) action) \<Rightarrow> ('s, 'b) action" where
  "bind m f s = (case m s of (Inl e, s') \<Rightarrow> (Inl e, s') | (Inr x, s') \<Rightarrow> f x s')"

definition emit :: "event \<Rightarrow> ('g world, unit) action" where
  "emit ev w = (Inr (), w\<lparr>trace := trace w @ [ev]\<rparr>)"

text \<open>A call into the access manager runs on its state and is recorded.\<close>

definition on_am :: "('g \<Rightarrow> (exn + 'a) \<times> 'g) \<Rightarrow> ('g world, 'a) action" where
  "on_am f w = (case f (am w) of (r, g') \<Rightarrow> (r, w\<lparr>am := g'\<rparr>))"

definition call_revoke_expired :: "('g, 'k) env \<Rightarrow> ('g world, unit) action" where
  "call_revoke_expired env = bind (emit RevokeExpired) (\<lambda>_. on_am (revoke_expired env))"

definition call_is_access_allowed ::
  "('g, 'k) env \<Rightarrow> json \<Rightarrow> json \<Rightarrow> ('g world, bool) action" where
  "call_is_access_allowed env owner viewer =
     bind (emit (IsAccessAllowed owner viewer)) (\<lambda>_. on_am (is_access_allowed env owner viewer))"

definition call_grant_access ::
  "('g, 'k) env \<Rightarrow> json \<Rightarrow> json \<Rightarrow> int \<Rightarrow> ('g world, json) action" where
  "call_grant_access env owner viewer duration =
     bind (emit (GrantAccess owner viewer duration))
       (\<lambda>_. on_am (am_grant_access env owner viewer duration))"

subsection \<open>The file system calls\<close>

text \<open>\<^verbatim>\<open>glob("places_output_*.enc.json")\<close>: the star matches any run of characters.\<close>

definition matches_enc :: "string \<Rightarrow> bool" where
  "matches_enc name \<longleftrightarrow>
     23 \<le> length name \<and> take 14 name = ''places_output_''
     \<and> drop (length name - 9) name = ''.enc.json''"

definition glob_enc :: "('g world, (string \<times> stored_file) list) action" where
  "glob_enc = bind (emit Glob) (\<lambda>_ w. (Inr (filter (\<lambda>(n, f). matches_enc n) (files w)), w))"

text \<open>\<^verbatim>\<open>sorted(..., key=lambda f: f.stat().st_mtime)\<close> is a stable sort.\<close>

definition sorted_by_mtime :: "(string \<times> stored_file) list \<Rightarrow> (string \<times> stored_file) list" where
  "sorted_by_mtime fs = sort_key (\<lambda>(n, f). mtime f) fs"

definition json_load :: "string \<times> stored_file \<Rightarrow> ('g world, json) action" where
  "json_load entry = bind (emit (ReadFile (fst entry))) (\<lambda>_. lift (content (snd entry)))"

section \<open>The route \<^verbatim>\<open>/view_location\<close>\<close>

text \<open>Lines 66 to 83: the latest encrypted file by modification time, whoever wrote it.\<close>

definition release_latest :: "('g world, response) action" where
  "release_latest =
     bind glob_enc (\<lambda>found.
       let enc_files = sorted_by_mtime found in
       if enc_files = []
       then ret (jsonify 404 (error_body ''No encrypted location data found''))
       else
         bind (json_load (last enc_files)) (\<lambda>enc_content.
         bind (lift (attr_get enc_content)) (\<lambda>c.
           ret (jsonify 200
             (JObj [(''enc_data'', dict_get_default c ''enc_data'' enc_content)])))))"

definition view_location_body :: "('g, 'k) env \<Rightarrow> request \<Rightarrow> ('g world, response) action" where
  "view_location_body env req =
     bind (lift (get_json req)) (\<lambda>data.
     bind (lift (attr_get data)) (\<lambda>d.
       let owner = dict_get d ''owner''; viewer = dict_get d ''viewer'' in
       if \<not> truthy owner \<or> \<not> truthy viewer
       then ret (jsonify 400 (error_body ''Missing owner or viewer''))
       else
         bind (call_revoke_expired env) (\<lambda>_.
         bind (call_is_access_allowed env owner viewer) (\<lambda>allowed.
           if \<not> allowed
           then ret (jsonify 403 (error_body ''Unauthorized access or access expired''))
           else release_latest))))"

text \<open>\<^verbatim>\<open>except Exception as e: return jsonify({"error": str(e)}), 500\<close>\<close>

definition catch_all :: "('s, response) action \<Rightarrow> 's \<Rightarrow> response \<times> 's" where
  "catch_all m s = (case m s of
       (Inr r, s') \<Rightarrow> (r, s')
     | (Inl e, s') \<Rightarrow> (jsonify 500 (error_body e), s'))"

definition view_location :: "('g, 'k) env \<Rightarrow> request \<Rightarrow> 'g world \<Rightarrow> response \<times> 'g world" where
  "view_location env req = catch_all (view_location_body env req)"

section \<open>The route \<^verbatim>\<open>/grant_access\<close>\<close>

text \<open>
  The builtin \<^verbatim>\<open>int()\<close> on a JSON value: a float is truncated towards zero, a
  string is parsed (by the parameter \<open>int_of_str\<close>), anything else but a number raises.
\<close>

definition int_type_error :: "json \<Rightarrow> exn" where
  "int_type_error v =
     ''int() argument must be a string, a bytes-like object or a real number, not ''
     @ quoted (type_name v)"

fun py_int :: "(string \<Rightarrow> exn + int) \<Rightarrow> json \<Rightarrow> exn + int" where
  "py_int p (JInt n) = Inr n"
| "py_int p (JBool b) = Inr (if b then 1 else 0)"
| "py_int p (JFloat (Finite r)) = Inr (if 0 \<le> r then \<lfloor>r\<rfloor> else \<lceil>r\<rceil>)"
| "py_int p (JFloat NaN) = Inl ''cannot convert float NaN to integer''"
| "py_int p (JFloat _) = Inl ''cannot convert float infinity to integer''"
| "py_int p (JStr s) = p s"
| "py_int p v = Inl (int_type_error v)"

text \<open>The message of the success response starts with U+2705, here in UTF-8.\<close>

definition access_granted :: string where
  "access_granted = [CHR 0xE2, CHR 0x9C, CHR 0x85] @ '' Access granted''"

definition grant_access_body :: "('g, 'k) env \<Rightarrow> request \<Rightarrow> ('g world, response) action" where
  "grant_access_body env req =
     bind (lift (get_json req)) (\<lambda>data.
     bind (lift (attr_get data)) (\<lambda>d.
       let owner = dict_get d ''owner''; viewer = dict_get d ''viewer'' in
       bind (lift (py_int (int_of_str env) (dict_get_default d ''duration_minutes'' (JInt 5))))
         (\<lambda>duration.
           if \<not> truthy owner \<or> \<not> truthy viewer
           then ret (jsonify 400 (error_body ''Missing owner or viewer''))
           else
             bind (call_grant_access env owner viewer duration) (\<lambda>rule.
               ret (jsonify 200 (JObj [(''message'', JStr access_granted), (''rule'', rule)]))))))"

definition grant_access :: "('g, 'k) env \<Rightarrow> request \<Rightarrow> 'g world \<Rightarrow> response \<times> 'g world" where
  "grant_access env req = catch_all (grant_access_body env req)"

section \<open>The route \<^verbatim>\<open>/search\<close>\<close>

subsection \<open>Bytes as hexadecimal text\<close>

definition hex_digit :: "nat \<Rightarrow> char" where
  "hex_digit n = ''0123456789abcdef'' ! n"

definition hex_byte :: "byte \<Rightarrow> string" where
  "hex_byte b = [hex_digit (unat b div 16), hex_digit (unat b mod 16)]"

text \<open>\<^verbatim>\<open>bytes.hex()\<close>\<close>

definition hex :: "byte list \<Rightarrow> string" where
  "hex bs = concat (map hex_byte bs)"

text \<open>\<^verbatim>\<open>bytes.fromhex\<close> on lower-case digits without spaces, the inverse of \<open>hex\<close>.\<close>

fun digit_value :: "char \<Rightarrow> string \<Rightarrow> nat option" where
  "digit_value c [] = None"
| "digit_value c (x # xs) =
     (if c = x then Some 0 else map_option Suc (digit_value c xs))"

fun fromhex :: "string \<Rightarrow> byte list option" where
  "fromhex [] = Some []"
| "fromhex [c] = None"
| "fromhex (c # d # cs) =
     (case (digit_value c ''0123456789abcdef'', digit_value d ''0123456789abcdef'', fromhex cs) of
        (Some h, Some l, Some bs) \<Rightarrow> Some (of_nat (16 * h + l) # bs)
      | _ \<Rightarrow> None)"

subsection \<open>Encryption of the search result (lines 112 to 126)\<close>

text \<open>\<^verbatim>\<open>secrets.token_bytes(n)\<close>: the next \<open>n\<close> bytes of the generator.\<close>

definition token_bytes :: "('g, 'k) env \<Rightarrow> nat \<Rightarrow> ('g world, byte list) action" where
  "token_bytes env n w = (Inr (map (entropy env) [rng w ..< rng w + n]), w\<lparr>rng := rng w + n\<rparr>)"

definition call_encrypt_with_key ::
  "('g, 'k) env \<Rightarrow> 'k \<Rightarrow> byte list \<Rightarrow> ('g world, string) action" where
  "call_encrypt_with_key env key plaintext w =
     (case encrypt_with_key env key plaintext (rng w) of (r, p') \<Rightarrow> (r, w\<lparr>rng := p'\<rparr>))"

record encrypted =
  salt :: "byte list"
  nonce :: "byte list"
  tag :: "byte list"
  ciphertext :: "byte list"

text \<open>The slices \<^verbatim>\<open>raw[:12], raw[12:28], raw[28:]\<close> never raise; they may come out short.\<close>

definition encrypt_result :: "('g, 'k) env \<Rightarrow> json \<Rightarrow> ('g world, encrypted) action" where
  "encrypt_result env result =
     bind (token_bytes env 16) (\<lambda>slt.
     bind (lift (derive_kek env (ENCRYPT_PASSPHRASE env) slt)) (\<lambda>key.
     bind (lift (json_dumps_utf8 env result)) (\<lambda>plaintext.
     bind (call_encrypt_with_key env key plaintext) (\<lambda>token.
     bind (lift (b64decode env token)) (\<lambda>raw.
       ret \<lparr>salt = slt, nonce = take 12 raw, tag = take 16 (drop 12 raw),
            ciphertext = drop 28 raw\<rparr>)))))"

definition enc_data_of :: "encrypted \<Rightarrow> json" where
  "enc_data_of e = JObj
     [(''salt_hex'', JStr (hex (salt e))),
      (''nonce_hex'', JStr (hex (nonce e))),
      (''tag_hex'', JStr (hex (tag e))),
      (''ciphertext_hex'', JStr (hex (ciphertext e)))]"

subsection \<open>Saving the payload (lines 128 to 132)\<close>

text \<open>\<^verbatim>\<open>a or b\<close>\<close>

definition py_or :: "json \<Rightarrow> json \<Rightarrow> json" where
  "py_or a b = (if truthy a then a else b)"

text \<open>
  A value inside an f-string: a \<^verbatim>\<open>str\<close> stands for itself, anything else goes
  through \<^verbatim>\<open>str()\<close>, the parameter \<open>str_of\<close>. Text is represented by its UTF-8 bytes.
\<close>

definition format_value :: "('g, 'k) env \<Rightarrow> json \<Rightarrow> string" where
  "format_value env v = (case v of JStr s \<Rightarrow> s | _ \<Rightarrow> str_of env v)"

definition enc_filename :: "('g, 'k) env \<Rightarrow> json \<Rightarrow> string" where
  "enc_filename env owner =
     ''places_output_'' @ format_value env (py_or owner (JStr ''user'')) @ ''.enc.json''"

text \<open>
  \<^verbatim>\<open>open(filepath, "w")\<close> followed by \<^verbatim>\<open>json.dump\<close>. The directory has no
  subdirectory whose name starts with \<^verbatim>\<open>places_output_\<close>, so a name with a slash
  cannot be opened; neither can a name with a NUL byte or one longer than 255 bytes.
  An existing file is replaced where it stands, a new one is listed last; the file
  gets the current time, and reading it back gives the document written.
\<close>

definition open_error :: "string \<Rightarrow> exn option" where
  "open_error name =
     (if CHR 0x00 \<in> set name then Some ''embedded null byte''
      else if CHR ''/'' \<in> set name
        then Some (''[Errno 2] No such file or directory: '' @ quoted name)
      else if 255 < length name
        then Some (''[Errno 36] File name too long: '' @ quoted name)
      else None)"

definition json_dump_to :: "string \<Rightarrow> json \<Rightarrow> ('g world, unit) action" where
  "json_dump_to name doc =
     bind (emit (WriteFile name)) (\<lambda>_ w.
       case open_error name of
         Some e \<Rightarrow> (Inl e, w)
       | None \<Rightarrow>
           (Inr (), w\<lparr>files :=
              AList.update name \<lparr>mtime = clock w, content = Inr doc\<rparr> (files w)\<rparr>))"

definition call_run_search ::
  "('g, 'k) env \<Rightarrow> json \<Rightarrow> json \<Rightarrow> json \<Rightarrow> ('g world, json) action" where
  "call_run_search env query lat lon =
     bind (emit (RunSearch query lat lon)) (\<lambda>_. lift (run_search env query lat lon))"

definition search_body :: "('g, 'k) env \<Rightarrow> request \<Rightarrow> ('g world, response) action" where
  "search_body env req =
     bind (call_revoke_expired env) (\<lambda>_.
     bind (lift (get_json req)) (\<lambda>data.
     bind (lift (attr_get data)) (\<lambda>d.
       let query = dict_get d ''query''; lat = dict_get d ''lat'';
           lon = dict_get d ''lon''; owner = dict_get d ''owner'' in
       if \<not> truthy query \<or> lat = JNull \<or> lon = JNull
       then ret (jsonify 400 (error_body ''Missing query or coordinates''))
       else
         bind (call_run_search env query lat lon) (\<lambda>result.
         bind (encrypt_result env result) (\<lambda>e.
           let enc_data = enc_data_of e in
           bind (json_dump_to (enc_filename env owner) (JObj [(''enc_data'', enc_data)])) (\<lambda>_.
             ret (jsonify 200 (JObj [(''enc_data'', enc_data)]))))))))"

definition search :: "('g, 'k) env \<Rightarrow> request \<Rightarrow> 'g world \<Rightarrow> response \<times> 'g world" where
  "search env req = catch_all (search_body env req)"

section \<open>The access manager\<close>

text \<open>
  The module \<^verbatim>\<open>access_manager\<close> is not among the source files. The handlers above
  take it as a parameter; the definitions of this section follow the specification's
  AccessGrantStore and serve to run the handlers on concrete requests.
\<close>

text \<open>
  Modelled from the spec: the Grant of the data model (the module \<^verbatim>\<open>access_manager\<close>
  is absent from the sources), with owner, viewer, \<open>granted_at\<close> and
  \<open>expires_at = granted_at + duration\<close>. Time is counted in minutes.
\<close>

record grant =
  grant_owner :: json
  grant_viewer :: json
  granted_at :: int
  expires_at :: int

text \<open>
  Modelled from the spec: the active set of the AccessGrantStore (absent from the
  sources), at most one grant per pair of owner and viewer, and the current time.
\<close>

record store =
  grants :: "((json \<times> json) \<times> grant) list"
  now :: int

text \<open>
  Modelled from the spec: the grant as the request layer serializes it (owner, viewer,
  \<open>expires_at\<close>); the module that builds it is absent from the sources.
\<close>

definition grant_json :: "grant \<Rightarrow> json" where
  "grant_json g = JObj
     [(''owner'', grant_owner g), (''viewer'', grant_viewer g),
      (''expires_at'', JInt (expires_at g))]"

text \<open>
  Modelled from the spec: \<^verbatim>\<open>access_manager.grant_access\<close> (absent from the sources)
  inserts or replaces the grant of the pair, with \<open>expires_at = now + duration_minutes\<close>,
  and returns the grant; it has no error condition.
\<close>

definition store_grant_access ::
  "json \<Rightarrow> json \<Rightarrow> int \<Rightarrow> store \<Rightarrow> (exn + json) \<times> store" where
  "store_grant_access owner viewer duration_minutes s =
     (let g = \<lparr>grant_owner = owner, grant_viewer = viewer, granted_at = now s,
                expires_at = now s + duration_minutes\<rparr>
      in (Inr (grant_json g), s\<lparr>grants := AList.update (owner, viewer) g (grants s)\<rparr>))"

text \<open>
  Modelled from the spec: \<^verbatim>\<open>access_manager.is_access_allowed\<close> (absent from the
  sources) returns true iff a grant exists for the pair with \<open>expires_at > now\<close>.
\<close>

definition store_is_access_allowed :: "json \<Rightarrow> json \<Rightarrow> store \<Rightarrow> (exn + bool) \<times> store" where
  "store_is_access_allowed owner viewer s =
     (Inr (case map_of (grants s) (owner, viewer) of
             None \<Rightarrow> False
           | Some g \<Rightarrow> now s < expires_at g), s)"

text \<open>
  Modelled from the spec: \<^verbatim>\<open>access_manager.revoke_expired\<close> (absent from the sources)
  removes every grant whose \<open>expires_at <= now\<close>.
\<close>

definition store_revoke_expired :: "store \<Rightarrow> (exn + unit) \<times> store" where
  "store_revoke_expired s =
     (Inr (), s\<lparr>grants := filter (\<lambda>(k, g). now s < expires_at g) (grants s)\<rparr>)"

section \<open>The token of \<^verbatim>\<open>encrypt_with_key\<close>\<close>

text \<open>
  Modelled from the spec: \<^verbatim>\<open>encrypt_utils.encrypt_with_key\<close> is absent from the
  sources. The specification gives it a 12-byte nonce, a 16-byte tag and a ciphertext
  as long as the plaintext, and the handler's comment \<^verbatim>\<open>base64(nonce+tag+ct)\<close> says
  how they travel: whenever the call returns a token and the token decodes, the decoded
  bytes are 28 more than the plaintext.
\<close>

definition token_shape :: "('g, 'k) env \<Rightarrow> bool" where
  "token_shape env \<longleftrightarrow>
     (\<forall>key plaintext pos token pos' raw.
        encrypt_with_key env key plaintext pos = (Inr token, pos')
        \<and> b64decode env token = Inr raw \<longrightarrow> length raw = 28 + length plaintext)"

section \<open>An environment to run the handlers in\<close>

text \<open>
  Stand-ins for the modules and library calls outside \<^verbatim>\<open>app.py\<close>, so that the
  handlers can be evaluated: standard base64, a JSON printer for documents without
  floats and without characters to escape, a decimal parser, and a toy cipher that has
  the output shape the specification gives \<^verbatim>\<open>encrypt_with_key\<close> (a 12-byte nonce, a
  16-byte tag and a ciphertext as long as the plaintext, base64-encoded as one token).
\<close>

definition b64_alphabet :: string where
  "b64_alphabet = ''ABCDEFGHIJKLMNOPQRSTUVWXYZabcdefghijklmnopqrstuvwxyz0123456789+/''"

definition b64_char :: "nat \<Rightarrow> char" where
  "b64_char n = b64_alphabet ! n"

text \<open>Three bytes are four groups of six bits.\<close>

definition sextet1 :: "byte \<Rightarrow> nat" where
  "sextet1 a = unat a div 4"

definition sextet2 :: "byte \<Rightarrow> byte \<Rightarrow> nat" where
  "sextet2 a b = unat a mod 4 * 16 + unat b div 16"

definition sextet3 :: "byte \<Rightarrow> byte \<Rightarrow> nat" where
  "sextet3 b c = unat b mod 16 * 4 + unat c div 64"

definition sextet4 :: "byte \<Rightarrow> nat" where
  "sextet4 c = unat c mod 64"

fun b64encode :: "byte list \<Rightarrow> string" where
  "b64encode [] = []"
| "b64encode [a] =
     [b64_char (sextet1 a), b64_char (sextet2 a 0), CHR ''='', CHR ''='']"
| "b64encode [a, b] =
     [b64_char (sextet1 a), b64_char (sextet2 a b), b64_char (sextet3 b 0), CHR ''='']"
| "b64encode (a # b # c # bs) =
     [b64_char (sextet1 a), b64_char (sextet2 a b), b64_char (sextet3 b c),
      b64_char (sextet4 c)] @ b64encode bs"

definition octet1 :: "nat \<Rightarrow> nat \<Rightarrow> byte" where
  "octet1 v1 v2 = of_nat (v1 * 4 + v2 div 16)"

definition octet2 :: "nat \<Rightarrow> nat \<Rightarrow> byte" where
  "octet2 v2 v3 = of_nat (v2 mod 16 * 16 + v3 div 4)"

definition octet3 :: "nat \<Rightarrow> nat \<Rightarrow> byte" where
  "octet3 v3 v4 = of_nat (v3 mod 4 * 64 + v4)"

definition b64_error :: exn where
  "b64_error = ''Incorrect padding''"

fun b64decode_strict :: "string \<Rightarrow> exn + byte list" where
  "b64decode_strict [] = Inr []"
| "b64decode_strict (c1 # c2 # c3 # c4 # cs) =
     (case (digit_value c1 b64_alphabet, digit_value c2 b64_alphabet) of
        (Some v1, Some v2) \<Rightarrow>
          (if cs = [] \<and> c3 = CHR ''='' \<and> c4 = CHR ''=''
           then Inr [octet1 v1 v2]
           else case digit_value c3 b64_alphabet of
             Some v3 \<Rightarrow>
               (if cs = [] \<and> c4 = CHR ''=''
                then Inr [octet1 v1 v2, octet2 v2 v3]
                else case (digit_value c4 b64_alphabet, b64decode_strict cs) of
                  (Some v4, Inr bs) \<Rightarrow> Inr (octet1 v1 v2 # octet2 v2 v3 # octet3 v3 v4 # bs)
                | (Some v4, Inl e) \<Rightarrow> Inl e
                | _ \<Rightarrow> Inl b64_error)
           | None \<Rightarrow> Inl b64_error)
      | _ \<Rightarrow> Inl b64_error)"
| "b64decode_strict _ = Inl b64_error"

fun digits :: "nat \<Rightarrow> string" where
  "digits n =
     (if n < 10 then [''0123456789'' ! n]
      else digits (n div 10) @ [''0123456789'' ! (n mod 10)])"

definition show_int :: "int \<Rightarrow> string" where
  "show_int i = (if i < 0 then CHR ''-'' # digits (nat (- i)) else digits (nat i))"

fun join :: "string \<Rightarrow> string list \<Rightarrow> string" where
  "join sep [] = []"
| "join sep [x] = x"
| "join sep (x # y # ys) = x @ sep @ join sep (y # ys)"

definition dq :: "string \<Rightarrow> string" where
  "dq s = CHR 0x22 # s @ [CHR 0x22]"

primrec demo_dumps :: "json \<Rightarrow> string" where
  "demo_dumps JNull = ''null''"
| "demo_dumps (JBool b) = (if b then ''true'' else ''false'')"
| "demo_dumps (JInt n) = show_int n"
| "demo_dumps (JFloat f) = ''NaN''"
| "demo_dumps (JStr s) = dq s"
| "demo_dumps (JArr xs) = ''['' @ join '', '' (map demo_dumps xs) @ '']''"
| "demo_dumps (JObj kvs) =
     ''{'' @ join '', '' (map (\<lambda>(k, v). dq k @ '': '' @ v) (map (map_prod id demo_dumps) kvs))
     @ ''}''"

primrec float_free :: "json \<Rightarrow> bool" where
  "float_free JNull = True"
| "float_free (JBool b) = True"
| "float_free (JInt n) = True"
| "float_free (JFloat f) = False"
| "float_free (JStr s) = True"
| "float_free (JArr xs) = list_all id (map float_free xs)"
| "float_free (JObj kvs) = list_all snd (map (map_prod id float_free) kvs)"

definition utf8 :: "string \<Rightarrow> byte list" where
  "utf8 s = map (\<lambda>c. of_nat (of_char c)) s"

definition demo_json_dumps_utf8 :: "json \<Rightarrow> exn + byte list" where
  "demo_json_dumps_utf8 v =
     (if float_free v then Inr (utf8 (demo_dumps v))
      else Inl ''float values are not printed by this environment'')"

fun parse_nat :: "string \<Rightarrow> nat \<Rightarrow> nat option" where
  "parse_nat [] acc = Some acc"
| "parse_nat (c # cs) acc =
     (case digit_value c ''0123456789'' of
        None \<Rightarrow> None
      | Some d \<Rightarrow> parse_nat cs (10 * acc + d))"

definition demo_int_of_str :: "string \<Rightarrow> exn + int" where
  "demo_int_of_str s =
     (let bad = Inl (''invalid literal for int() with base 10: '' @ quoted s) in
      case s of
        [] \<Rightarrow> bad
      | c # cs \<Rightarrow>
          if c = CHR ''-'' \<and> cs \<noteq> []
          then (case parse_nat cs 0 of None \<Rightarrow> bad | Some n \<Rightarrow> Inr (- int n))
          else (case parse_nat s 0 of None \<Rightarrow> bad | Some n \<Rightarrow> Inr (int n)))"

definition demo_str_of :: "json \<Rightarrow> string" where
  "demo_str_of v =
     (case v of
        JNull \<Rightarrow> ''None''
      | JBool b \<Rightarrow> (if b then ''True'' else ''False'')
      | _ \<Rightarrow> demo_dumps v)"

definition demo_entropy :: "nat \<Rightarrow> byte" where
  "demo_entropy i = of_nat (37 * i + 11)"

definition demo_derive_kek :: "string \<Rightarrow> byte list \<Rightarrow> exn + byte list" where
  "demo_derive_kek passphrase slt = Inr (utf8 passphrase @ slt)"

definition demo_encrypt_with_key :: "byte list \<Rightarrow> byte list \<Rightarrow> nat \<Rightarrow> (exn + string) \<times> nat" where
  "demo_encrypt_with_key key plaintext pos =
     (let nnc = map demo_entropy [pos ..< pos + 12];
          k = sum_list key;
          ct = map (\<lambda>b. b + k) plaintext;
          tg = map (\<lambda>i. sum_list ct + k + of_nat i) [0 ..< 16]
      in (Inr (b64encode (nnc @ tg @ ct)), pos + 12))"

definition demo_result :: "json \<Rightarrow> json \<Rightarrow> json \<Rightarrow> json" where
  "demo_result query lat lon =
     JObj [(''center'', JObj [(''lat'', lat), (''lon'', lon)]),
           (''places'', JArr [JObj [(''name'', query)]])]"

definition demo_run_search :: "json \<Rightarrow> json \<Rightarrow> json \<Rightarrow> exn + json" where
  "demo_run_search query lat lon = Inr (demo_result query lat lon)"

definition demo_env :: "(store, byte list) env" where
  "demo_env = \<lparr>
     revoke_expired = store_revoke_expired,
     is_access_allowed = store_is_access_allowed,
     am_grant_access = store_grant_access,
     run_search = demo_run_search,
     derive_kek = demo_derive_kek,
     encrypt_with_key = demo_encrypt_with_key,
     ENCRYPT_PASSPHRASE = ''mySecret123'',
     entropy = demo_entropy,
     json_dumps_utf8 = demo_json_dumps_utf8,
     b64decode = b64decode_strict,
     int_of_str = demo_int_of_str,
     str_of = demo_str_of\<rparr>"

text \<open>What the toy cipher produces, for a result and a position of the generator.\<close>

definition demo_key :: "nat \<Rightarrow> byte" where
  "demo_key pos = sum_list (utf8 ''mySecret123'' @ map demo_entropy [pos ..< pos + 16])"

definition demo_encrypted :: "json \<Rightarrow> nat \<Rightarrow> encrypted" where
  "demo_encrypted result pos =
     (let ct = map (\<lambda>b. b + demo_key pos) (utf8 (demo_dumps result)) in
      \<lparr>salt = map demo_entropy [pos ..< pos + 16],
       nonce = map demo_entropy [pos + 16 ..< pos + 28],
       tag = map (\<lambda>i. sum_list ct + demo_key pos + of_nat i) [0 ..< 16],
       ciphertext = ct\<rparr>)"

definition world0 :: "store world" where
  "world0 = \<lparr>am = \<lparr>grants = [], now = 0\<rparr>, files = [], clock = 100, rng = 0, trace = []\<rparr>"

definition post :: "(string \<times> json) list \<Rightarrow> request" where
  "post kvs = \<lparr>get_json = Inr (JObj kvs)\<rparr>"

section \<open>Scenarios\<close>

definition alice :: json where "alice = JStr ''alice''"
definition bob :: json where "bob = JStr ''bob''"
definition carol :: json where "carol = JStr ''carol''"

definition bob_views_alice :: request where
  "bob_views_alice = post [(''owner'', alice), (''viewer'', bob)]"

definition alice_grants_bob :: request where
  "alice_grants_bob = post [(''owner'', alice), (''viewer'', bob)]"

definition alice_searches :: request where
  "alice_searches =
     post [(''query'', JStr ''cafe''), (''lat'', JInt 12), (''lon'', JInt 77), (''owner'', alice)]"

definition carol_searches :: request where
  "carol_searches =
     post [(''query'', JStr ''bank''), (''lat'', JInt 48), (''lon'', JInt 2), (''owner'', carol)]"

text \<open>
  A state the handlers reach from \<open>world0\<close>: Alice searched, then Carol searched, then
  Alice granted Bob five minutes, one minute ago. The payloads are those the searches of
  \<open>alice_searches\<close> and \<open>carol_searches\<close> produce in \<open>demo_env\<close>.
\<close>

definition payload_alice :: json where
  "payload_alice = JObj
     [(''salt_hex'', JStr ''0b30557a9fc4e90e33587da2c7ec1136''),
      (''nonce_hex'', JStr ''5b80a5caef14395e83a8cdf2''),
      (''tag_hex'', JStr ''808182838485868788898a8b8c8d8e8f''),
      (''ciphertext_hex'', JStr
        ''650c4d4f585e4f5c0c240a650c564b5e0c240a1b1c160a0c5659580c240a212167160a0c5a564b4d4f5d0c240a45650c584b574f0c240a0c4d4b504f0c674767'')]"

definition payload_carol :: json where
  "payload_carol = JObj
     [(''salt_hex'', JStr ''173c6186abd0f51a3f6489aed3f81d42''),
      (''nonce_hex'', JStr ''678cb1d6fb20456a8fb4d9fe''),
      (''tag_hex'', JStr ''707172737475767778797a7b7c7d7e7f''),
      (''ciphertext_hex'', JStr
        ''25cc0d0f181e0f1ccce4ca25cc160b1ecce4cadee2d6cacc161918cce4cadc27d6cacc1a160b0d0f1dcce4ca0525cc180b170fcce4cacc0c0b1815cc270727'')]"

definition world_two_owners :: "store world" where
  "world_two_owners = \<lparr>
     am = \<lparr>grants = [((alice, bob),
             \<lparr>grant_owner = alice, grant_viewer = bob, granted_at = 0, expires_at = 5\<rparr>)],
           now = 1\<rparr>,
     files =
       [(''places_output_alice.enc.json'',
         \<lparr>mtime = 100, content = Inr (JObj [(''enc_data'', payload_alice)])\<rparr>),
        (''places_output_carol.enc.json'',
         \<lparr>mtime = 101, content = Inr (JObj [(''enc_data'', payload_carol)])\<rparr>)],
     clock = 102, rng = 56, trace = []\<rparr>"

text \<open>The same grant seven minutes later: it exists and has expired.\<close>

definition world_expired :: "store world" where
  "world_expired = world_two_owners\<lparr>am := (am world_two_owners)\<lparr>now := 8\<rparr>\<rparr>"

text \<open>The grant is live and no payload is stored; the directory holds the program only.\<close>

definition world_no_payload :: "store world" where
  "world_no_payload = world_two_owners\<lparr>files :=
     [(''app.py'', \<lparr>mtime = 7, content = Inl ''Expecting value: line 1 column 1 (char 0)''\<rparr>)]\<rparr>"

text \<open>Nobody ever granted anything on behalf of Dave.\<close>

definition bob_views_dave :: request where
  "bob_views_dave = post [(''owner'', JStr ''dave''), (''viewer'', bob)]"

definition grant_zero_minutes :: request where
  "grant_zero_minutes =
     post [(''owner'', alice), (''viewer'', bob), (''duration_minutes'', JInt 0)]"

definition grant_negative_minutes :: request where
  "grant_negative_minutes =
     post [(''owner'', alice), (''viewer'', bob), (''duration_minutes'', JInt (- 3))]"

definition grant_without_owner :: request where
  "grant_without_owner = post [(''owner'', JStr []), (''viewer'', bob)]"

text \<open>Two searches that name no owner.\<close>

definition anonymous_search :: request where
  "anonymous_search = post [(''query'', JStr ''cafe''), (''lat'', JInt 12), (''lon'', JInt 77)]"

definition another_anonymous_search :: request where
  "another_anonymous_search =
     post [(''query'', JStr ''bank''), (''lat'', JInt 48), (''lon'', JInt 2)]"

text \<open>Time passing between two requests.\<close>

definition tick :: "'g world \<Rightarrow> 'g world" where
  "tick w = w\<lparr>clock := clock w + 1\<rparr>"

section \<open>The state after a run of calls\<close>

definition logged :: "'g world \<Rightarrow> event list \<Rightarrow> 'g world" where
  "logged w evs = w\<lparr>trace := trace w @ evs\<rparr>"

definition after_calls :: "'g world \<Rightarrow> event list \<Rightarrow> 'g \<Rightarrow> 'g world" where
  "after_calls w evs g = (logged w evs)\<lparr>am := g\<rparr>"

text \<open>The two calls of lines 62 and 63.\<close>

definition checked :: "json \<Rightarrow> json \<Rightarrow> event list" where
  "checked owner viewer = [RevokeExpired, IsAccessAllowed owner viewer]"

text \<open>The events a handler added to the trace.\<close>

definition new_events :: "'g world \<Rightarrow> 'g world \<Rightarrow> event list" where
  "new_events w w' = drop (length (trace w)) (trace w')"

section \<open>Lemmas on sequencing and on the calls\<close>

lemma logged_sel [simp]:
  "am (logged w evs) = am w"
  "trace (logged w evs) = trace w @ evs"
  "files (logged w evs) = files w"
  "clock (logged w evs) = clock w"
  "rng (logged w evs) = rng w"
  by (simp_all add: logged_def)

lemma after_calls_sel [simp]:
  "am (after_calls w evs g) = g"
  "trace (after_calls w evs g) = trace w @ evs"
  "files (after_calls w evs g) = files w"
  "clock (after_calls w evs g) = clock w"
  "rng (after_calls w evs g) = rng w"
  by (simp_all add: after_calls_def)

lemma logged_twice [simp]: "logged (logged w evs) evs' = logged w (evs @ evs')"
  by (simp add: logged_def)

lemma after_calls_twice [simp]:
  "after_calls (after_calls w evs g) evs' g' = after_calls w (evs @ evs') g'"
  by (simp add: after_calls_def logged_def)

lemma logged_after_calls [simp]:
  "logged (after_calls w evs g) evs' = after_calls w (evs @ evs') g"
  by (simp add: logged_def after_calls_def)

lemma after_calls_logged [simp]:
  "after_calls (logged w evs) evs' g = after_calls w (evs @ evs') g"
  by (simp add: logged_def after_calls_def)

lemma logged_rng [simp]: "logged (w\<lparr>rng := p\<rparr>) evs = (logged w evs)\<lparr>rng := p\<rparr>"
  by (simp add: logged_def)

lemma new_events_append [simp]:
  "trace w' = trace w @ evs \<Longrightarrow> new_events w w' = evs"
  by (simp add: new_events_def)

lemma new_events_same [simp]: "new_events w w = []"
  by (simp add: new_events_def)

lemma attr_get_Inr_iff [simp]: "attr_get v = Inr d \<longleftrightarrow> v = JObj d"
  by (cases v) simp_all

lemma jsonify_sel [simp]: "status (jsonify c v) = c" "body (jsonify c v) = v"
  by (simp_all add: jsonify_def)

lemma jsonify_eq_iff [simp]: "jsonify c v = jsonify c' v' \<longleftrightarrow> c = c' \<and> v = v'"
  by (simp add: jsonify_def)

lemma catch_all_bind:
  "catch_all (bind m f) s =
     (case m s of
        (Inl e, s') \<Rightarrow> (jsonify 500 (error_body e), s')
      | (Inr x, s') \<Rightarrow> catch_all (f x) s')"
  by (simp add: catch_all_def bind_def split: prod.splits sum.splits)

lemma catch_all_ret: "catch_all (ret r) s = (r, s)"
  by (simp add: catch_all_def ret_def)

lemma catch_all_if:
  "catch_all (if c then m else m') s = (if c then catch_all m s else catch_all m' s)"
  by simp

lemma lift_apply: "lift r s = (r, s)"
  by (simp add: lift_def)

lemma call_revoke_expired_apply:
  "call_revoke_expired env w =
     (case revoke_expired env (am w) of (r, g) \<Rightarrow> (r, after_calls w [RevokeExpired] g))"
  by (simp add: call_revoke_expired_def bind_def emit_def on_am_def after_calls_def logged_def
      split: prod.splits)

lemma call_is_access_allowed_apply:
  "call_is_access_allowed env owner viewer w =
     (case is_access_allowed env owner viewer (am w) of
        (r, g) \<Rightarrow> (r, after_calls w [IsAccessAllowed owner viewer] g))"
  by (simp add: call_is_access_allowed_def bind_def emit_def on_am_def after_calls_def
      logged_def split: prod.splits)

lemma call_grant_access_apply:
  "call_grant_access env owner viewer n w =
     (case am_grant_access env owner viewer n (am w) of
        (r, g) \<Rightarrow> (r, after_calls w [GrantAccess owner viewer n] g))"
  by (simp add: call_grant_access_def bind_def emit_def on_am_def after_calls_def logged_def
      split: prod.splits)

lemma call_run_search_apply:
  "call_run_search env q lat lon w = (run_search env q lat lon, logged w [RunSearch q lat lon])"
  by (simp add: call_run_search_def bind_def emit_def lift_def logged_def)

lemma json_dump_to_apply:
  "json_dump_to name doc w =
     (case open_error name of
        Some e \<Rightarrow> (Inl e, logged w [WriteFile name])
      | None \<Rightarrow> (Inr (), (logged w [WriteFile name])
          \<lparr>files := AList.update name \<lparr>mtime = clock w, content = Inr doc\<rparr> (files w)\<rparr>))"
  by (simp add: json_dump_to_def bind_def emit_def logged_def split: option.splits)

lemma sorted_by_mtime_Nil_iff [simp]: "sorted_by_mtime fs = [] \<longleftrightarrow> fs = []"
proof -
  have "length (sorted_by_mtime fs) = length fs"
    by (simp add: sorted_by_mtime_def)
  then show ?thesis by (metis length_0_conv)
qed

lemma demo_env_sel [simp]:
  "revoke_expired demo_env = store_revoke_expired"
  "is_access_allowed demo_env = store_is_access_allowed"
  "am_grant_access demo_env = store_grant_access"
  "run_search demo_env = demo_run_search"
  "derive_kek demo_env = demo_derive_kek"
  "encrypt_with_key demo_env = demo_encrypt_with_key"
  "ENCRYPT_PASSPHRASE demo_env = ''mySecret123''"
  "entropy demo_env = demo_entropy"
  "json_dumps_utf8 demo_env = demo_json_dumps_utf8"
  "b64decode demo_env = b64decode_strict"
  "int_of_str demo_env = demo_int_of_str"
  "str_of demo_env = demo_str_of"
  by (simp_all add: demo_env_def)

section \<open>Bytes and text\<close>

lemma digit_value_nth:
  "distinct xs \<Longrightarrow> n < length xs \<Longrightarrow> digit_value (xs ! n) xs = Some n"
proof (induction xs arbitrary: n)
  case Nil
  then show ?case by simp
next
  case (Cons x xs)
  show ?case
  proof (cases n)
    case 0
    then show ?thesis by simp
  next
    case (Suc m)
    with Cons.prems have "xs ! m \<noteq> x" by auto
    with Suc Cons show ?thesis by simp
  qed
qed

lemma byte_lt: "unat (a :: byte) < 256"
  using unsigned_less [of a, where ?'a = nat] by simp

subsection \<open>Hexadecimal text decodes to the bytes it was made from\<close>

lemma hex_value_digit: "n < 16 \<Longrightarrow> digit_value (hex_digit n) ''0123456789abcdef'' = Some n"
  unfolding hex_digit_def by (rule digit_value_nth) simp_all

lemma byte_of_nibbles: "word_of_nat (16 * (unat b div 16) + unat b mod 16) = (b :: byte)"
proof -
  have "16 * (unat b div 16) + unat b mod 16 = unat b" by simp
  then have "(word_of_nat (16 * (unat b div 16) + unat b mod 16) :: byte) = word_of_nat (unat b)"
    by (simp only:)
  then show ?thesis by simp
qed

lemma length_hex [simp]: "length (hex bs) = 2 * length bs"
  by (induction bs) (simp_all add: hex_def hex_byte_def)

lemma fromhex_hex: "fromhex (hex bs) = Some bs"
proof (induction bs)
  case Nil
  then show ?case by (simp add: hex_def)
next
  case (Cons b bs)
  have "unat b div 16 < 16" "unat b mod 16 < 16"
    using byte_lt [of b] by simp_all
  then have "digit_value (hex_digit (unat b div 16)) ''0123456789abcdef'' = Some (unat b div 16)"
    "digit_value (hex_digit (unat b mod 16)) ''0123456789abcdef'' = Some (unat b mod 16)"
    by (simp_all only: hex_value_digit)
  moreover have "hex (b # bs) = hex_digit (unat b div 16) # hex_digit (unat b mod 16) # hex bs"
    by (simp add: hex_def hex_byte_def)
  moreover from Cons have "fromhex (hex bs) = Some bs" .
  ultimately show ?case
    by (simp only: fromhex.simps prod.case option.case byte_of_nibbles)
qed

subsection \<open>Base64 decodes to the bytes it was made from\<close>

lemma distinct_b64_alphabet: "distinct b64_alphabet"
  by (simp add: b64_alphabet_def)

lemma length_b64_alphabet: "length b64_alphabet = 64"
  by (simp add: b64_alphabet_def)

lemma b64_value_char: "n < 64 \<Longrightarrow> digit_value (b64_char n) b64_alphabet = Some n"
  unfolding b64_char_def
  by (rule digit_value_nth) (simp_all add: distinct_b64_alphabet length_b64_alphabet)

lemma b64_char_not_pad: "n < 64 \<Longrightarrow> b64_char n \<noteq> CHR ''=''"
proof -
  assume "n < 64"
  then have "b64_char n \<in> set b64_alphabet"
    unfolding b64_char_def by (simp add: length_b64_alphabet)
  moreover have "CHR ''='' \<notin> set b64_alphabet"
    by (simp add: b64_alphabet_def)
  ultimately show ?thesis by auto
qed

lemma b64encode_Nil_iff: "b64encode bs = [] \<longleftrightarrow> bs = []"
  by (cases bs rule: b64encode.cases) simp_all

lemma sextet_less:
  "sextet1 a < 64" "sextet2 a b < 64" "sextet3 b c < 64" "sextet4 c < 64"
  using byte_lt [of a] byte_lt [of b] byte_lt [of c]
  by (simp_all add: sextet1_def sextet2_def sextet3_def sextet4_def)

lemma octet1_sextets: "octet1 (sextet1 a) (sextet2 a b) = a"
proof -
  have "unat b div 16 < 16" using byte_lt [of b] by simp
  then have "(unat a mod 4 * 16 + unat b div 16) div 16 = unat a mod 4" by simp
  then have "unat a div 4 * 4 + (unat a mod 4 * 16 + unat b div 16) div 16 = unat a" by simp
  then have "octet1 (sextet1 a) (sextet2 a b) = of_nat (unat a)"
    by (simp only: octet1_def sextet1_def sextet2_def)
  then show ?thesis by simp
qed

lemma octet2_sextets: "octet2 (sextet2 a b) (sextet3 b c) = b"
proof -
  have "unat c div 64 < 4" using byte_lt [of c] by simp
  then have "(unat b mod 16 * 4 + unat c div 64) div 4 = unat b mod 16" by simp
  moreover have "(unat a mod 4 * 16 + unat b div 16) mod 16 = unat b div 16"
    using byte_lt [of b] by simp
  ultimately have "(unat a mod 4 * 16 + unat b div 16) mod 16 * 16
      + (unat b mod 16 * 4 + unat c div 64) div 4 = unat b" by simp
  then have "octet2 (sextet2 a b) (sextet3 b c) = of_nat (unat b)"
    by (simp only: octet2_def sextet2_def sextet3_def)
  then show ?thesis by simp
qed

lemma octet3_sextets: "octet3 (sextet3 b c) (sextet4 c) = c"
proof -
  have "unat c div 64 < 4" using byte_lt [of c] by simp
  then have "(unat b mod 16 * 4 + unat c div 64) mod 4 = unat c div 64" by simp
  then have "(unat b mod 16 * 4 + unat c div 64) mod 4 * 64 + unat c mod 64 = unat c" by simp
  then have "octet3 (sextet3 b c) (sextet4 c) = of_nat (unat c)"
    by (simp only: octet3_def sextet3_def sextet4_def)
  then show ?thesis by simp
qed

lemma b64decode_b64encode: "b64decode_strict (b64encode bs) = Inr bs"
  by (induction bs rule: b64encode.induct)
    (simp_all add: b64_value_char sextet_less b64_char_not_pad b64encode_Nil_iff
       octet1_sextets octet2_sextets octet3_sextets)

section \<open>The route \<^verbatim>\<open>/view_location\<close>, case by case\<close>

lemma release_latest_apply:
  "catch_all release_latest w =
     (let found = filter (\<lambda>(n, f). matches_enc n) (files w) in
      if found = []
      then (jsonify 404 (error_body ''No encrypted location data found''), logged w [Glob])
      else
        let latest = last (sorted_by_mtime found);
            w' = logged w [Glob, ReadFile (fst latest)]
        in case content (snd latest) of
             Inl e \<Rightarrow> (jsonify 500 (error_body e), w')
           | Inr enc_content \<Rightarrow>
               (case attr_get enc_content of
                  Inl e \<Rightarrow> (jsonify 500 (error_body e), w')
                | Inr c \<Rightarrow>
                    (jsonify 200
                       (JObj [(''enc_data'', dict_get_default c ''enc_data'' enc_content)]),
                     w')))"
  by (simp add: release_latest_def glob_enc_def json_load_def catch_all_bind catch_all_ret
      bind_def emit_def lift_def Let_def logged_def split: sum.splits)

lemma view_location_cases:
  "view_location env req w =
    (case get_json req of
       Inl e \<Rightarrow> (jsonify 500 (error_body e), w)
     | Inr data \<Rightarrow>
        (case attr_get data of
           Inl e \<Rightarrow> (jsonify 500 (error_body e), w)
         | Inr d \<Rightarrow>
            let owner = dict_get d ''owner''; viewer = dict_get d ''viewer'' in
            if \<not> truthy owner \<or> \<not> truthy viewer
            then (jsonify 400 (error_body ''Missing owner or viewer''), w)
            else
              (case revoke_expired env (am w) of
                 (Inl e, g1) \<Rightarrow> (jsonify 500 (error_body e), after_calls w [RevokeExpired] g1)
               | (Inr u, g1) \<Rightarrow>
                  (case is_access_allowed env owner viewer g1 of
                     (Inl e, g2) \<Rightarrow>
                       (jsonify 500 (error_body e), after_calls w (checked owner viewer) g2)
                   | (Inr allowed, g2) \<Rightarrow>
                       if allowed
                       then catch_all release_latest (after_calls w (checked owner viewer) g2)
                       else (jsonify 403 (error_body ''Unauthorized access or access expired''),
                             after_calls w (checked owner viewer) g2)))))"
  by (simp add: view_location_def view_location_body_def catch_all_bind catch_all_ret
      catch_all_if lift_apply call_revoke_expired_apply call_is_access_allowed_apply Let_def
      checked_def split: prod.splits sum.splits)

section \<open>Evaluating the scenarios\<close>

lemmas scenario_defs = alice_def bob_def carol_def bob_views_alice_def post_def world0_def
  world_two_owners_def world_expired_def world_no_payload_def bob_views_dave_def
  alice_grants_bob_def grant_zero_minutes_def grant_negative_minutes_def grant_without_owner_def

lemmas store_defs = demo_env_def store_revoke_expired_def store_is_access_allowed_def
  store_grant_access_def

section \<open>Access is checked before anything is released\<close>

text \<open>
  C1. For every \<^verbatim>\<open>/view_location\<close> request whose owner and viewer are non-empty
  (truthy), the first call is \<^verbatim>\<open>revoke_expired()\<close>; when it returns, the next call is
  \<^verbatim>\<open>is_access_allowed(owner, viewer)\<close>. A stored payload is released (status 200, or
  any file read at all) only when \<^verbatim>\<open>is_access_allowed\<close> returned true. When it
  returned false the response is the 403 denial, the two calls are the only ones the
  handler made (no listing, no file read), and the files are untouched.
\<close>

theorem view_location_checks_access:
  assumes "get_json req = Inr (JObj d)"
    and "truthy (dict_get d ''owner'')" and "truthy (dict_get d ''viewer'')"
    and "view_location env req w = (resp, w')"
  shows "(\<exists>evs. trace w' = trace w @ RevokeExpired # evs)
    \<and> (\<forall>g1. revoke_expired env (am w) = (Inr (), g1) \<longrightarrow>
          (\<exists>evs. trace w' = trace w @ RevokeExpired
             # IsAccessAllowed (dict_get d ''owner'') (dict_get d ''viewer'') # evs))
    \<and> (status resp = 200 \<or> (\<exists>n. ReadFile n \<in> set (new_events w w')) \<longrightarrow>
          (\<exists>g1 g2. revoke_expired env (am w) = (Inr (), g1)
             \<and> is_access_allowed env (dict_get d ''owner'') (dict_get d ''viewer'') g1
                 = (Inr True, g2)))
    \<and> (\<forall>g1 g2. revoke_expired env (am w) = (Inr (), g1)
          \<and> is_access_allowed env (dict_get d ''owner'') (dict_get d ''viewer'') g1
              = (Inr False, g2) \<longrightarrow>
          resp = jsonify 403 (error_body ''Unauthorized access or access expired'')
          \<and> new_events w w'
              = [RevokeExpired, IsAccessAllowed (dict_get d ''owner'') (dict_get d ''viewer'')]
          \<and> files w' = files w)"
  using assms
  by (auto simp add: view_location_cases release_latest_apply Let_def checked_def
      split: prod.splits sum.splits if_splits)

theorem view_location_checks_access_witness:
  "fst (view_location demo_env bob_views_alice world0)
     = jsonify 403 (error_body ''Unauthorized access or access expired'')
   \<and> new_events world0 (snd (view_location demo_env bob_views_alice world0))
     = [RevokeExpired, IsAccessAllowed alice bob]
   \<and> status (fst (view_location demo_env bob_views_alice world_two_owners)) = 200
   \<and> fst (store_is_access_allowed alice bob (snd (store_revoke_expired (am world_two_owners))))
     = Inr True"
proof -
  have d: "get_json bob_views_alice = Inr (JObj [(''owner'', alice), (''viewer'', bob)])"
    by (simp add: bob_views_alice_def post_def)
  have t: "truthy (dict_get [(''owner'', alice), (''viewer'', bob)] ''owner'')"
    "truthy (dict_get [(''owner'', alice), (''viewer'', bob)] ''viewer'')"
    by (simp_all add: dict_get_def dict_get_default_def alice_def bob_def)
  have ok: "status (fst (view_location demo_env bob_views_alice world_two_owners)) = 200"
    by (simp add: view_location_cases scenario_defs store_defs release_latest_apply
        matches_enc_def sorted_by_mtime_def dict_get_def dict_get_default_def Let_def)
  note denied = view_location_checks_access [OF d t surjective_pairing, of demo_env world0]
  note allowed = view_location_checks_access [OF d t surjective_pairing, of demo_env world_two_owners]
  from allowed ok have 
    "\<exists>g1 g2. revoke_expired demo_env (am world_two_owners) = (Inr (), g1)
        \<and> is_access_allowed demo_env (dict_get [(''owner'', alice), (''viewer'', bob)] ''owner'')
            (dict_get [(''owner'', alice), (''viewer'', bob)] ''viewer'') g1 = (Inr True, g2)"
    by blast
  then have a: "fst (store_is_access_allowed alice bob (snd (store_revoke_expired (am world_two_owners))))
     = Inr True"
    by (auto simp add: demo_env_def dict_get_def dict_get_default_def)
  have r: "revoke_expired demo_env (am world0) = (Inr (), am world0)"
    by (simp add: store_defs world0_def)
  have i: "is_access_allowed demo_env (dict_get [(''owner'', alice), (''viewer'', bob)] ''owner'')
            (dict_get [(''owner'', alice), (''viewer'', bob)] ''viewer'') (am world0)
          = (Inr False, am world0)"
    by (simp add: store_defs world0_def)
  from denied r i have
    "fst (view_location demo_env bob_views_alice world0)
       = jsonify 403 (error_body ''Unauthorized access or access expired'')
     \<and> new_events world0 (snd (view_location demo_env bob_views_alice world0))
       = [RevokeExpired, IsAccessAllowed (dict_get [(''owner'', alice), (''viewer'', bob)] ''owner'')
           (dict_get [(''owner'', alice), (''viewer'', bob)] ''viewer'')]"
    by blast
  then show ?thesis using ok a
    by (simp add: dict_get_def dict_get_default_def)
qed


section \<open>The 404 answer is behind the access check\<close>

lemma view_location_404:
  assumes "status (fst (view_location env req w)) = 404"
  shows "\<exists>d g1 g2. get_json req = Inr (JObj d)
          \<and> truthy (dict_get d ''owner'') \<and> truthy (dict_get d ''viewer'')
          \<and> revoke_expired env (am w) = (Inr (), g1)
          \<and> is_access_allowed env (dict_get d ''owner'') (dict_get d ''viewer'') g1
              = (Inr True, g2)
          \<and> new_events w (snd (view_location env req w))
              = [RevokeExpired,
                 IsAccessAllowed (dict_get d ''owner'') (dict_get d ''viewer''), Glob]"
proof -
  from assms obtain d where d: "get_json req = Inr (JObj d)"
    by (cases "get_json req"; cases "projr (get_json req)")
      (auto simp add: view_location_cases)
  let ?o = "dict_get d ''owner''" and ?v = "dict_get d ''viewer''"
  from assms d have t: "truthy ?o" "truthy ?v"
    by (auto simp add: view_location_cases Let_def split: if_splits)
  from assms d t obtain g1 where r: "revoke_expired env (am w) = (Inr (), g1)"
    by (cases "revoke_expired env (am w)"; cases "fst (revoke_expired env (am w))")
      (auto simp add: view_location_cases Let_def)
  from assms d t r obtain g2 where i: "is_access_allowed env ?o ?v g1 = (Inr True, g2)"
    by (cases "is_access_allowed env ?o ?v g1"; cases "fst (is_access_allowed env ?o ?v g1)")
      (auto simp add: view_location_cases Let_def split: if_splits)
  from assms d t r i have "new_events w (snd (view_location env req w))
      = [RevokeExpired, IsAccessAllowed ?o ?v, Glob]"
    by (auto simp add: view_location_cases release_latest_apply Let_def checked_def
        split: if_splits sum.splits)
  with d t r i show ?thesis by blast
qed

text \<open>
  C9. When an authorized \<^verbatim>\<open>/view_location\<close> request finds no file matching
  \<^verbatim>\<open>places_output_*.enc.json\<close>, the answer is 404 "No encrypted location data found".
  Whatever the request, an answer 404 means that \<^verbatim>\<open>revoke_expired\<close> returned and
  \<^verbatim>\<open>is_access_allowed\<close> returned true before the directory was listed; a viewer for
  whom \<^verbatim>\<open>is_access_allowed\<close> returned false gets 403.
\<close>

theorem no_data_only_after_authorization:
  "(\<forall>d g1 g2. get_json req = Inr (JObj d)
       \<and> truthy (dict_get d ''owner'') \<and> truthy (dict_get d ''viewer'')
       \<and> revoke_expired env (am w) = (Inr (), g1)
       \<and> is_access_allowed env (dict_get d ''owner'') (dict_get d ''viewer'') g1 = (Inr True, g2)
       \<and> filter (\<lambda>(n, f). matches_enc n) (files w) = [] \<longrightarrow>
       fst (view_location env req w)
         = jsonify 404 (error_body ''No encrypted location data found''))
   \<and> (status (fst (view_location env req w)) = 404 \<longrightarrow>
       (\<exists>d g1 g2. get_json req = Inr (JObj d)
          \<and> truthy (dict_get d ''owner'') \<and> truthy (dict_get d ''viewer'')
          \<and> revoke_expired env (am w) = (Inr (), g1)
          \<and> is_access_allowed env (dict_get d ''owner'') (dict_get d ''viewer'') g1
              = (Inr True, g2)
          \<and> new_events w (snd (view_location env req w))
              = [RevokeExpired,
                 IsAccessAllowed (dict_get d ''owner'') (dict_get d ''viewer''), Glob]))
   \<and> (\<forall>d g1 g2. get_json req = Inr (JObj d)
       \<and> truthy (dict_get d ''owner'') \<and> truthy (dict_get d ''viewer'')
       \<and> revoke_expired env (am w) = (Inr (), g1)
       \<and> is_access_allowed env (dict_get d ''owner'') (dict_get d ''viewer'') g1 = (Inr False, g2)
       \<longrightarrow> status (fst (view_location env req w)) = 403)"
proof (intro conjI)
  show "\<forall>d g1 g2. get_json req = Inr (JObj d)
       \<and> truthy (dict_get d ''owner'') \<and> truthy (dict_get d ''viewer'')
       \<and> revoke_expired env (am w) = (Inr (), g1)
       \<and> is_access_allowed env (dict_get d ''owner'') (dict_get d ''viewer'') g1 = (Inr True, g2)
       \<and> filter (\<lambda>(n, f). matches_enc n) (files w) = [] \<longrightarrow>
       fst (view_location env req w)
         = jsonify 404 (error_body ''No encrypted location data found'')"
    by (simp add: view_location_cases release_latest_apply Let_def)
  show "status (fst (view_location env req w)) = 404 \<longrightarrow>
       (\<exists>d g1 g2. get_json req = Inr (JObj d)
          \<and> truthy (dict_get d ''owner'') \<and> truthy (dict_get d ''viewer'')
          \<and> revoke_expired env (am w) = (Inr (), g1)
          \<and> is_access_allowed env (dict_get d ''owner'') (dict_get d ''viewer'') g1
              = (Inr True, g2)
          \<and> new_events w (snd (view_location env req w))
              = [RevokeExpired,
                 IsAccessAllowed (dict_get d ''owner'') (dict_get d ''viewer''), Glob])"
    using view_location_404 by blast
  show "\<forall>d g1 g2. get_json req = Inr (JObj d)
       \<and> truthy (dict_get d ''owner'') \<and> truthy (dict_get d ''viewer'')
       \<and> revoke_expired env (am w) = (Inr (), g1)
       \<and> is_access_allowed env (dict_get d ''owner'') (dict_get d ''viewer'') g1 = (Inr False, g2)
       \<longrightarrow> status (fst (view_location env req w)) = 403"
    by (simp add: view_location_cases Let_def)
qed

theorem no_data_only_after_authorization_witness:
  "fst (view_location demo_env bob_views_alice world_no_payload)
     = jsonify 404 (error_body ''No encrypted location data found'')
   \<and> fst (store_is_access_allowed alice bob (snd (store_revoke_expired (am world_no_payload))))
     = Inr True
   \<and> status (fst (view_location demo_env bob_views_alice world0)) = 403"
proof -
  let ?d = "[(''owner'', alice), (''viewer'', bob)]"
  note main = no_data_only_after_authorization [of bob_views_alice demo_env]
  have d: "get_json bob_views_alice = Inr (JObj ?d)"
    by (simp add: bob_views_alice_def post_def)
  have t: "truthy (dict_get ?d ''owner'')" "truthy (dict_get ?d ''viewer'')"
    by (simp_all add: dict_get_def dict_get_default_def alice_def bob_def)
  have r: "revoke_expired demo_env (am world_no_payload) = (Inr (), am world_no_payload)"
    by (simp add: store_defs scenario_defs world_no_payload_def)
  have i: "is_access_allowed demo_env (dict_get ?d ''owner'') (dict_get ?d ''viewer'')
      (am world_no_payload) = (Inr True, am world_no_payload)"
    by (simp add: store_defs scenario_defs world_no_payload_def dict_get_def
        dict_get_default_def)
  have f: "filter (\<lambda>(n, f). matches_enc n) (files world_no_payload) = []"
    by (simp add: world_no_payload_def matches_enc_def)
  from main [of world_no_payload] d t r i f
  have a: "fst (view_location demo_env bob_views_alice world_no_payload)
     = jsonify 404 (error_body ''No encrypted location data found'')"
    by blast
  then have "status (fst (view_location demo_env bob_views_alice world_no_payload)) = 404"
    by simp
  with main [of world_no_payload] d
  have "\<exists>g1 g2. revoke_expired demo_env (am world_no_payload) = (Inr (), g1)
      \<and> is_access_allowed demo_env (dict_get ?d ''owner'') (dict_get ?d ''viewer'') g1
          = (Inr True, g2)"
    by auto
  then have b: "fst (store_is_access_allowed alice bob
      (snd (store_revoke_expired (am world_no_payload)))) = Inr True"
    by (auto simp add: demo_env_def dict_get_def dict_get_default_def)
  have r0: "revoke_expired demo_env (am world0) = (Inr (), am world0)"
    by (simp add: store_defs world0_def)
  have i0: "is_access_allowed demo_env (dict_get ?d ''owner'') (dict_get ?d ''viewer'')
      (am world0) = (Inr False, am world0)"
    by (simp add: store_defs world0_def)
  from main [of world0] d t r0 i0
  have c: "status (fst (view_location demo_env bob_views_alice world0)) = 403"
    by blast
  from a b c show ?thesis by simp
qed

section \<open>The denial does not depend on why access is denied\<close>

text \<open>
  C6. Two \<^verbatim>\<open>/view_location\<close> requests with non-empty owner and viewer for which
  \<^verbatim>\<open>is_access_allowed\<close> returns false get the same response, status 403 with the same
  body, whatever the two states of the access manager are: an owner without any grant
  and a pair whose grant has expired cannot be told apart.
\<close>

theorem denial_is_uniform:
  assumes "get_json req1 = Inr (JObj d1)"
    and "truthy (dict_get d1 ''owner'')" and "truthy (dict_get d1 ''viewer'')"
    and "revoke_expired env1 (am w1) = (Inr (), g1)"
    and "is_access_allowed env1 (dict_get d1 ''owner'') (dict_get d1 ''viewer'') g1
           = (Inr False, g1')"
    and "get_json req2 = Inr (JObj d2)"
    and "truthy (dict_get d2 ''owner'')" and "truthy (dict_get d2 ''viewer'')"
    and "revoke_expired env2 (am w2) = (Inr (), g2)"
    and "is_access_allowed env2 (dict_get d2 ''owner'') (dict_get d2 ''viewer'') g2
           = (Inr False, g2')"
  shows "fst (view_location env1 req1 w1) = fst (view_location env2 req2 w2)
    \<and> fst (view_location env1 req1 w1)
        = jsonify 403 (error_body ''Unauthorized access or access expired'')"
  using assms by (simp add: view_location_cases Let_def)

theorem denial_is_uniform_witness:
  "filter (\<lambda>(k, g). fst k = JStr ''dave'') (grants (am world_expired)) = []
   \<and> map (\<lambda>(k, g). (k, expires_at g)) (grants (am world_expired)) = [((alice, bob), 5)]
   \<and> now (am world_expired) = 8
   \<and> fst (view_location demo_env bob_views_dave world_expired)
     = fst (view_location demo_env bob_views_alice world_expired)
   \<and> status (fst (view_location demo_env bob_views_alice world_expired)) = 403"
proof -
  let ?d1 = "[(''owner'', JStr ''dave''), (''viewer'', bob)]"
  let ?d2 = "[(''owner'', alice), (''viewer'', bob)]"
  let ?g = "\<lparr>grants = [], now = 8\<rparr>"
  have d1: "get_json bob_views_dave = Inr (JObj ?d1)"
    by (simp add: bob_views_dave_def post_def)
  have d2: "get_json bob_views_alice = Inr (JObj ?d2)"
    by (simp add: bob_views_alice_def post_def)
  have t1: "truthy (dict_get ?d1 ''owner'')" "truthy (dict_get ?d1 ''viewer'')"
    by (simp_all add: dict_get_def dict_get_default_def bob_def)
  have t2: "truthy (dict_get ?d2 ''owner'')" "truthy (dict_get ?d2 ''viewer'')"
    by (simp_all add: dict_get_def dict_get_default_def alice_def bob_def)
  have r: "revoke_expired demo_env (am world_expired) = (Inr (), ?g)"
    by (simp add: store_defs scenario_defs)
  have i1: "is_access_allowed demo_env (dict_get ?d1 ''owner'') (dict_get ?d1 ''viewer'') ?g
      = (Inr False, ?g)"
    by (simp add: store_defs)
  have i2: "is_access_allowed demo_env (dict_get ?d2 ''owner'') (dict_get ?d2 ''viewer'') ?g
      = (Inr False, ?g)"
    by (simp add: store_defs)
  have s: "filter (\<lambda>(k, g). fst k = JStr ''dave'') (grants (am world_expired)) = []"
    "map (\<lambda>(k, g). (k, expires_at g)) (grants (am world_expired)) = [((alice, bob), 5)]"
    "now (am world_expired) = 8"
    by (simp_all add: scenario_defs)
  from denial_is_uniform [OF d1 t1 r i1 d2 t2 r i2]
  have "fst (view_location demo_env bob_views_dave world_expired)
     = fst (view_location demo_env bob_views_alice world_expired)
   \<and> status (fst (view_location demo_env bob_views_alice world_expired)) = 403"
    by (metis jsonify_sel(1))
  with s show ?thesis by simp
qed


section \<open>The route \<^verbatim>\<open>/grant_access\<close>, case by case\<close>

lemma grant_access_cases:
  "grant_access env req w =
    (case get_json req of
       Inl e \<Rightarrow> (jsonify 500 (error_body e), w)
     | Inr data \<Rightarrow>
        (case attr_get data of
           Inl e \<Rightarrow> (jsonify 500 (error_body e), w)
         | Inr d \<Rightarrow>
            let owner = dict_get d ''owner''; viewer = dict_get d ''viewer'' in
            case py_int (int_of_str env) (dict_get_default d ''duration_minutes'' (JInt 5)) of
              Inl e \<Rightarrow> (jsonify 500 (error_body e), w)
            | Inr duration \<Rightarrow>
                if \<not> truthy owner \<or> \<not> truthy viewer
                then (jsonify 400 (error_body ''Missing owner or viewer''), w)
                else
                  (case am_grant_access env owner viewer duration (am w) of
                     (Inl e, g) \<Rightarrow>
                       (jsonify 500 (error_body e),
                        after_calls w [GrantAccess owner viewer duration] g)
                   | (Inr rule, g) \<Rightarrow>
                       (jsonify 200 (JObj [(''message'', JStr access_granted), (''rule'', rule)]),
                        after_calls w [GrantAccess owner viewer duration] g))))"
  by (simp add: grant_access_def grant_access_body_def catch_all_bind catch_all_ret
      catch_all_if lift_apply call_grant_access_apply Let_def
      split: prod.splits sum.splits)

section \<open>What \<^verbatim>\<open>/grant_access\<close> validates\<close>

text \<open>
  C5 as stated fails: the handler never looks at the sign of the duration. A request
  for zero minutes with both identifiers present is answered 200, after
  \<^verbatim>\<open>access_manager.grant_access\<close> was called with duration 0.
\<close>

theorem grant_access_zero_minutes_counterexample:
  "status (fst (grant_access demo_env grant_zero_minutes world0)) = 200
   \<and> new_events world0 (snd (grant_access demo_env grant_zero_minutes world0))
      = [GrantAccess alice bob 0]"
  by (simp add: grant_access_cases grant_zero_minutes_def scenario_defs store_defs
      dict_get_def dict_get_default_def Let_def)

text \<open>
  C5, amended. When the body is an object and \<^verbatim>\<open>duration_minutes\<close> is absent or
  converted by \<^verbatim>\<open>int()\<close>, a missing or empty owner or viewer is rejected with 400
  "Missing owner or viewer" and nothing else happens: no call to the access manager, the
  world unchanged. With both identifiers non-empty the request is not rejected, whatever
  the integer is, and \<^verbatim>\<open>access_manager.grant_access\<close> is called with it.
\<close>

theorem grant_access_validates_identifiers:
  assumes "get_json req = Inr (JObj d)"
    and "py_int (int_of_str env) (dict_get_default d ''duration_minutes'' (JInt 5)) = Inr n"
  shows "(\<not> truthy (dict_get d ''owner'') \<or> \<not> truthy (dict_get d ''viewer'') \<longrightarrow>
            grant_access env req w = (jsonify 400 (error_body ''Missing owner or viewer''), w))
    \<and> (truthy (dict_get d ''owner'') \<and> truthy (dict_get d ''viewer'') \<longrightarrow>
            new_events w (snd (grant_access env req w))
              = [GrantAccess (dict_get d ''owner'') (dict_get d ''viewer'') n]
          \<and> status (fst (grant_access env req w)) \<noteq> 400)"
  using assms
  by (auto simp add: grant_access_cases Let_def split: prod.splits sum.splits)

theorem grant_access_validates_identifiers_witness:
  "grant_access demo_env grant_without_owner world0
     = (jsonify 400 (error_body ''Missing owner or viewer''), world0)
   \<and> new_events world0 (snd (grant_access demo_env grant_negative_minutes world0))
     = [GrantAccess alice bob (- 3)]"
proof -
  let ?d1 = "[(''owner'', JStr []), (''viewer'', bob)]"
  let ?d2 = "[(''owner'', alice), (''viewer'', bob), (''duration_minutes'', JInt (- 3))]"
  have d1: "get_json grant_without_owner = Inr (JObj ?d1)"
    by (simp add: grant_without_owner_def post_def)
  have n1: "py_int (int_of_str demo_env) (dict_get_default ?d1 ''duration_minutes'' (JInt 5))
      = Inr 5"
    by (simp add: dict_get_default_def)
  have f1: "\<not> truthy (dict_get ?d1 ''owner'')"
    by (simp add: dict_get_def dict_get_default_def)
  have d2: "get_json grant_negative_minutes = Inr (JObj ?d2)"
    by (simp add: grant_negative_minutes_def post_def)
  have n2: "py_int (int_of_str demo_env) (dict_get_default ?d2 ''duration_minutes'' (JInt 5))
      = Inr (- 3)"
    by (simp add: dict_get_default_def)
  have t2: "truthy (dict_get ?d2 ''owner'')" "truthy (dict_get ?d2 ''viewer'')"
    by (simp_all add: dict_get_def dict_get_default_def alice_def bob_def)
  from grant_access_validates_identifiers [OF d1 n1, of world0] f1
  have a: "grant_access demo_env grant_without_owner world0
     = (jsonify 400 (error_body ''Missing owner or viewer''), world0)"
    by blast
  from grant_access_validates_identifiers [OF d2 n2, of world0] t2
  have "new_events world0 (snd (grant_access demo_env grant_negative_minutes world0))
     = [GrantAccess (dict_get ?d2 ''owner'') (dict_get ?d2 ''viewer'') (- 3)]"
    by blast
  then have b: "new_events world0 (snd (grant_access demo_env grant_negative_minutes world0))
     = [GrantAccess alice bob (- 3)]"
    by (simp add: dict_get_def dict_get_default_def)
  from a b show ?thesis by simp
qed

section \<open>The default duration\<close>

text \<open>
  C8. When the body omits \<^verbatim>\<open>duration_minutes\<close> and both identifiers are non-empty, the
  handler calls \<^verbatim>\<open>access_manager.grant_access(owner, viewer, 5)\<close> and answers with what
  the call returns. Whatever the request, a call to \<^verbatim>\<open>access_manager.grant_access\<close>
  carries the integer that \<^verbatim>\<open>int()\<close> made of the field, or of the default 5.
\<close>

theorem grant_access_default_duration:
  assumes "get_json req = Inr (JObj d)"
  shows "(map_of d ''duration_minutes'' = None
          \<and> truthy (dict_get d ''owner'') \<and> truthy (dict_get d ''viewer'') \<longrightarrow>
            new_events w (snd (grant_access env req w))
              = [GrantAccess (dict_get d ''owner'') (dict_get d ''viewer'') 5]
          \<and> am (snd (grant_access env req w))
              = snd (am_grant_access env (dict_get d ''owner'') (dict_get d ''viewer'') 5 (am w))
          \<and> fst (grant_access env req w)
              = (case fst (am_grant_access env (dict_get d ''owner'') (dict_get d ''viewer'') 5
                      (am w)) of
                   Inl e \<Rightarrow> jsonify 500 (error_body e)
                 | Inr rule \<Rightarrow>
                     jsonify 200 (JObj [(''message'', JStr access_granted), (''rule'', rule)])))
    \<and> (\<forall>owner viewer n.
          GrantAccess owner viewer n \<in> set (new_events w (snd (grant_access env req w))) \<longrightarrow>
            py_int (int_of_str env) (dict_get_default d ''duration_minutes'' (JInt 5)) = Inr n)"
  using assms
  by (auto simp add: grant_access_cases dict_get_default_def Let_def
      split: prod.splits sum.splits)

theorem grant_access_default_duration_witness:
  "new_events world0 (snd (grant_access demo_env alice_grants_bob world0))
     = [GrantAccess alice bob 5]
   \<and> map (\<lambda>(k, g). (k, expires_at g))
        (grants (am (snd (grant_access demo_env alice_grants_bob world0))))
     = [((alice, bob), 5)]
   \<and> status (fst (grant_access demo_env alice_grants_bob world0)) = 200"
proof -
  let ?d = "[(''owner'', alice), (''viewer'', bob)]"
  have d: "get_json alice_grants_bob = Inr (JObj ?d)"
    by (simp add: alice_grants_bob_def post_def)
  have m: "map_of ?d ''duration_minutes'' = None" by simp
  have t: "truthy (dict_get ?d ''owner'')" "truthy (dict_get ?d ''viewer'')"
    by (simp_all add: dict_get_def dict_get_default_def alice_def bob_def)
  from grant_access_default_duration [OF d, where env = demo_env and w = world0] m t
  have "new_events world0 (snd (grant_access demo_env alice_grants_bob world0))
        = [GrantAccess (dict_get ?d ''owner'') (dict_get ?d ''viewer'') 5]
    \<and> am (snd (grant_access demo_env alice_grants_bob world0))
        = snd (am_grant_access demo_env (dict_get ?d ''owner'') (dict_get ?d ''viewer'') 5
             (am world0))
    \<and> fst (grant_access demo_env alice_grants_bob world0)
        = (case fst (am_grant_access demo_env (dict_get ?d ''owner'') (dict_get ?d ''viewer'') 5
                (am world0)) of
             Inl e \<Rightarrow> jsonify 500 (error_body e)
           | Inr rule \<Rightarrow>
               jsonify 200 (JObj [(''message'', JStr access_granted), (''rule'', rule)]))"
    by blast
  then show ?thesis
    by (simp add: dict_get_def dict_get_default_def store_defs world0_def Let_def)
qed


section \<open>The route \<^verbatim>\<open>/search\<close>, case by case\<close>

lemma encrypt_result_apply:
  "encrypt_result env result w =
     (let slt = map (entropy env) [rng w ..< rng w + 16] in
      case derive_kek env (ENCRYPT_PASSPHRASE env) slt of
        Inl e \<Rightarrow> (Inl e, w\<lparr>rng := rng w + 16\<rparr>)
      | Inr key \<Rightarrow>
         (case json_dumps_utf8 env result of
            Inl e \<Rightarrow> (Inl e, w\<lparr>rng := rng w + 16\<rparr>)
          | Inr plaintext \<Rightarrow>
             (case encrypt_with_key env key plaintext (rng w + 16) of
                (Inl e, p) \<Rightarrow> (Inl e, w\<lparr>rng := p\<rparr>)
              | (Inr token, p) \<Rightarrow>
                 (case b64decode env token of
                    Inl e \<Rightarrow> (Inl e, w\<lparr>rng := p\<rparr>)
                  | Inr raw \<Rightarrow>
                     (Inr \<lparr>salt = slt, nonce = take 12 raw, tag = take 16 (drop 12 raw),
                          ciphertext = drop 28 raw\<rparr>, w\<lparr>rng := p\<rparr>)))))"
  by (simp add: encrypt_result_def bind_def lift_def ret_def token_bytes_def
      call_encrypt_with_key_def Let_def split: prod.splits sum.splits)

lemma encrypt_result_Inr:
  assumes "encrypt_result env result w = (Inr e, w1)"
  shows "\<exists>key pt token p raw.
      derive_kek env (ENCRYPT_PASSPHRASE env) (map (entropy env) [rng w ..< rng w + 16]) = Inr key
    \<and> json_dumps_utf8 env result = Inr pt
    \<and> encrypt_with_key env key pt (rng w + 16) = (Inr token, p)
    \<and> b64decode env token = Inr raw
    \<and> e = \<lparr>salt = map (entropy env) [rng w ..< rng w + 16], nonce = take 12 raw,
            tag = take 16 (drop 12 raw), ciphertext = drop 28 raw\<rparr>
    \<and> w1 = w\<lparr>rng := p\<rparr>"
  using assms
  by (auto simp add: encrypt_result_apply Let_def split: prod.splits sum.splits)

lemma search_cases:
  "search env req w =
    (case revoke_expired env (am w) of
       (Inl e, g1) \<Rightarrow> (jsonify 500 (error_body e), after_calls w [RevokeExpired] g1)
     | (Inr u, g1) \<Rightarrow>
        (case get_json req of
           Inl e \<Rightarrow> (jsonify 500 (error_body e), after_calls w [RevokeExpired] g1)
         | Inr data \<Rightarrow>
            (case attr_get data of
               Inl e \<Rightarrow> (jsonify 500 (error_body e), after_calls w [RevokeExpired] g1)
             | Inr d \<Rightarrow>
                let query = dict_get d ''query''; lat = dict_get d ''lat'';
                    lon = dict_get d ''lon''; owner = dict_get d ''owner'' in
                if \<not> truthy query \<or> lat = JNull \<or> lon = JNull
                then (jsonify 400 (error_body ''Missing query or coordinates''),
                      after_calls w [RevokeExpired] g1)
                else
                  let w2 = after_calls w [RevokeExpired, RunSearch query lat lon] g1 in
                  (case run_search env query lat lon of
                     Inl e \<Rightarrow> (jsonify 500 (error_body e), w2)
                   | Inr result \<Rightarrow>
                      (case encrypt_result env result w2 of
                         (Inl e, w3) \<Rightarrow> (jsonify 500 (error_body e), w3)
                       | (Inr e, w3) \<Rightarrow>
                          let name = enc_filename env owner;
                              doc = JObj [(''enc_data'', enc_data_of e)]
                          in case open_error name of
                               Some err \<Rightarrow>
                                 (jsonify 500 (error_body err), logged w3 [WriteFile name])
                             | None \<Rightarrow>
                                 (jsonify 200 doc,
                                  (logged w3 [WriteFile name])\<lparr>files :=
                                     AList.update name \<lparr>mtime = clock w3, content = Inr doc\<rparr>
                                       (files w3)\<rparr>))))))"
  by (simp add: search_def search_body_def catch_all_bind catch_all_ret catch_all_if
      lift_apply call_revoke_expired_apply call_run_search_apply json_dump_to_apply Let_def
      split: prod.splits sum.splits option.splits)

lemma search_200:
  assumes "search env req w = (resp, w')" and "status resp = 200"
  shows "\<exists>d g1 result e p.
      get_json req = Inr (JObj d)
    \<and> revoke_expired env (am w) = (Inr (), g1)
    \<and> truthy (dict_get d ''query'') \<and> dict_get d ''lat'' \<noteq> JNull \<and> dict_get d ''lon'' \<noteq> JNull
    \<and> run_search env (dict_get d ''query'') (dict_get d ''lat'') (dict_get d ''lon'') = Inr result
    \<and> encrypt_result env result
         (after_calls w [RevokeExpired,
            RunSearch (dict_get d ''query'') (dict_get d ''lat'') (dict_get d ''lon'')] g1)
        = (Inr e, (after_calls w [RevokeExpired,
            RunSearch (dict_get d ''query'') (dict_get d ''lat'') (dict_get d ''lon'')] g1)
             \<lparr>rng := p\<rparr>)
    \<and> open_error (enc_filename env (dict_get d ''owner'')) = None
    \<and> resp = jsonify 200 (JObj [(''enc_data'', enc_data_of e)])
    \<and> w' = (after_calls w [RevokeExpired,
               RunSearch (dict_get d ''query'') (dict_get d ''lat'') (dict_get d ''lon''),
               WriteFile (enc_filename env (dict_get d ''owner''))] g1)
            \<lparr>rng := p,
              files := AList.update (enc_filename env (dict_get d ''owner''))
                 \<lparr>mtime = clock w, content = Inr (JObj [(''enc_data'', enc_data_of e)])\<rparr>
                 (files w)\<rparr>"
proof -
  from assms obtain g1 where g1: "revoke_expired env (am w) = (Inr (), g1)"
    by (cases "revoke_expired env (am w)"; cases "fst (revoke_expired env (am w))")
      (auto simp add: search_cases)
  from assms g1 obtain d where d: "get_json req = Inr (JObj d)"
    by (cases "get_json req"; cases "projr (get_json req)") (auto simp add: search_cases)
  let ?q = "dict_get d ''query''" and ?lat = "dict_get d ''lat''"
    and ?lon = "dict_get d ''lon''" and ?name = "enc_filename env (dict_get d ''owner'')"
  from assms d g1 have req: "truthy ?q" "?lat \<noteq> JNull" "?lon \<noteq> JNull"
    by (auto simp add: search_cases Let_def split: if_splits)
  let ?w2 = "after_calls w [RevokeExpired, RunSearch ?q ?lat ?lon] g1"
  from assms d g1 req obtain result where result: "run_search env ?q ?lat ?lon = Inr result"
    by (cases "run_search env ?q ?lat ?lon") (auto simp add: search_cases Let_def)
  from assms d g1 req result obtain e w3 where e: "encrypt_result env result ?w2 = (Inr e, w3)"
    by (cases "encrypt_result env result ?w2"; cases "fst (encrypt_result env result ?w2)")
      (auto simp add: search_cases Let_def)
  from encrypt_result_Inr [OF e] obtain p where w3: "w3 = ?w2\<lparr>rng := p\<rparr>"
    by blast
  from assms d g1 req result e have o: "open_error ?name = None"
    by (cases "open_error ?name") (auto simp add: search_cases Let_def)
  from assms d g1 req result e w3 o have
    "resp = jsonify 200 (JObj [(''enc_data'', enc_data_of e)])"
    "w' = (after_calls w [RevokeExpired, RunSearch ?q ?lat ?lon, WriteFile ?name] g1)
            \<lparr>rng := p,
              files := AList.update ?name
                 \<lparr>mtime = clock w, content = Inr (JObj [(''enc_data'', enc_data_of e)])\<rparr>
                 (files w)\<rparr>"
    by (auto simp add: search_cases Let_def)
  with d g1 req result e w3 o show ?thesis by blast
qed

lemma search_stores_payload:
  assumes "search env req w = (resp, w')" and "status resp = 200"
    and "get_json req = Inr (JObj d)"
  shows "new_events w w'
      = [RevokeExpired,
         RunSearch (dict_get d ''query'') (dict_get d ''lat'') (dict_get d ''lon''),
         WriteFile (enc_filename env (dict_get d ''owner''))]"
    and "files w' = AList.update (enc_filename env (dict_get d ''owner''))
           \<lparr>mtime = clock w, content = Inr (body resp)\<rparr> (files w)"
proof -
  from search_200 [OF assms(1,2)] assms(3) obtain g1 e p where
    resp: "resp = jsonify 200 (JObj [(''enc_data'', enc_data_of e)])"
    and w': "w' = (after_calls w [RevokeExpired,
               RunSearch (dict_get d ''query'') (dict_get d ''lat'') (dict_get d ''lon''),
               WriteFile (enc_filename env (dict_get d ''owner''))] g1)
            \<lparr>rng := p,
              files := AList.update (enc_filename env (dict_get d ''owner''))
                 \<lparr>mtime = clock w, content = Inr (JObj [(''enc_data'', enc_data_of e)])\<rparr>
                 (files w)\<rparr>"
    by auto
  from w' show "new_events w w'
      = [RevokeExpired,
         RunSearch (dict_get d ''query'') (dict_get d ''lat'') (dict_get d ''lon''),
         WriteFile (enc_filename env (dict_get d ''owner''))]"
    by simp
  from w' resp show "files w' = AList.update (enc_filename env (dict_get d ''owner''))
           \<lparr>mtime = clock w, content = Inr (body resp)\<rparr> (files w)"
    by simp
qed

lemma search_returns:
  assumes "get_json req = Inr (JObj d)"
    and "truthy (dict_get d ''query'')"
    and "dict_get d ''lat'' \<noteq> JNull" and "dict_get d ''lon'' \<noteq> JNull"
    and "revoke_expired env (am w) = (Inr (), g1)"
    and "run_search env (dict_get d ''query'') (dict_get d ''lat'') (dict_get d ''lon'')
           = Inr result"
    and "encrypt_result env result
           (after_calls w [RevokeExpired,
              RunSearch (dict_get d ''query'') (dict_get d ''lat'') (dict_get d ''lon'')] g1)
           = (Inr e, w1)"
    and "open_error (enc_filename env (dict_get d ''owner'')) = None"
  shows "fst (search env req w) = jsonify 200 (JObj [(''enc_data'', enc_data_of e)])"
    and "new_events w (snd (search env req w))
      = [RevokeExpired,
         RunSearch (dict_get d ''query'') (dict_get d ''lat'') (dict_get d ''lon''),
         WriteFile (enc_filename env (dict_get d ''owner''))]"
    and "files (snd (search env req w))
      = AList.update (enc_filename env (dict_get d ''owner''))
          \<lparr>mtime = clock w, content = Inr (JObj [(''enc_data'', enc_data_of e)])\<rparr> (files w)"
proof -
  from encrypt_result_Inr [OF assms(7)] obtain p where
    w1: "w1 = (after_calls w [RevokeExpired,
              RunSearch (dict_get d ''query'') (dict_get d ''lat'') (dict_get d ''lon'')] g1)
            \<lparr>rng := p\<rparr>"
    by auto
  have run: "search env req w =
      (jsonify 200 (JObj [(''enc_data'', enc_data_of e)]),
       (after_calls w [RevokeExpired,
           RunSearch (dict_get d ''query'') (dict_get d ''lat'') (dict_get d ''lon''),
           WriteFile (enc_filename env (dict_get d ''owner''))] g1)
         \<lparr>rng := p,
           files := AList.update (enc_filename env (dict_get d ''owner''))
             \<lparr>mtime = clock w, content = Inr (JObj [(''enc_data'', enc_data_of e)])\<rparr>
             (files w)\<rparr>)"
    using assms(1-6,8) assms(7) [unfolded w1]
    by (simp add: search_cases Let_def)
  from run show "fst (search env req w) = jsonify 200 (JObj [(''enc_data'', enc_data_of e)])"
    by simp
  from run show "new_events w (snd (search env req w))
      = [RevokeExpired,
         RunSearch (dict_get d ''query'') (dict_get d ''lat'') (dict_get d ''lon''),
         WriteFile (enc_filename env (dict_get d ''owner''))]"
    by simp
  from run show "files (snd (search env req w))
      = AList.update (enc_filename env (dict_get d ''owner''))
          \<lparr>mtime = clock w, content = Inr (JObj [(''enc_data'', enc_data_of e)])\<rparr> (files w)"
    by simp
qed

lemma open_error_user: "open_error ''places_output_user.enc.json'' = None"
  by (simp add: open_error_def)

section \<open>Searches in the environment\<close>

lemma token_shape_demo: "token_shape demo_env"
  by (auto simp add: token_shape_def demo_encrypt_with_key_def b64decode_b64encode Let_def)

lemma encrypt_result_demo:
  "float_free result \<Longrightarrow>
     encrypt_result demo_env result w = (Inr (demo_encrypted result (rng w)), w\<lparr>rng := rng w + 28\<rparr>)"
  by (simp add: encrypt_result_apply demo_derive_kek_def demo_json_dumps_utf8_def
      demo_encrypt_with_key_def b64decode_b64encode demo_encrypted_def demo_key_def Let_def
      add.assoc)

lemma search_demo:
  assumes "get_json req = Inr (JObj d)"
    and "truthy (dict_get d ''query'')" and "dict_get d ''lat'' \<noteq> JNull"
    and "dict_get d ''lon'' \<noteq> JNull"
    and "float_free (dict_get d ''query'')" and "float_free (dict_get d ''lat'')"
    and "float_free (dict_get d ''lon'')"
    and "open_error (enc_filename demo_env (dict_get d ''owner'')) = None"
    and "snd (store_revoke_expired (am w)) = g"
  shows "search demo_env req w =
    (let doc = JObj [(''enc_data'', enc_data_of
           (demo_encrypted (demo_result (dict_get d ''query'') (dict_get d ''lat'')
               (dict_get d ''lon'')) (rng w)))];
         name = enc_filename demo_env (dict_get d ''owner'')
     in (jsonify 200 doc,
         (after_calls w [RevokeExpired,
             RunSearch (dict_get d ''query'') (dict_get d ''lat'') (dict_get d ''lon''),
             WriteFile name] g)
         \<lparr>rng := rng w + 28,
           files := AList.update name \<lparr>mtime = clock w, content = Inr doc\<rparr> (files w)\<rparr>))"
proof -
  have r: "store_revoke_expired (am w) = (Inr (), g)"
    using assms(9) by (auto simp add: store_revoke_expired_def)
  have ff: "float_free (demo_result (dict_get d ''query'') (dict_get d ''lat'')
               (dict_get d ''lon''))"
    using assms(5-7) by (simp add: demo_result_def)
  show ?thesis
    using assms(1-4,8) r
    by (simp add: search_cases Let_def encrypt_result_demo [OF ff] demo_run_search_def)
qed

lemma demo_key_0: "demo_key 0 = 0xEA"
  by (simp add: demo_key_def utf8_def demo_entropy_def upt_rec)

lemma payload_alice_eval:
  "enc_data_of (demo_encrypted (demo_result (JStr ''cafe'') (JInt 12) (JInt 77)) 0) = payload_alice"
  by (simp add: enc_data_of_def demo_encrypted_def demo_result_def demo_key_0 utf8_def dq_def
      show_int_def demo_entropy_def hex_def hex_byte_def hex_digit_def payload_alice_def
      Let_def upt_rec)

lemma demo_key_28: "demo_key 28 = 0xAA"
  by (simp add: demo_key_def utf8_def demo_entropy_def upt_rec)

lemma payload_carol_eval:
  "enc_data_of (demo_encrypted (demo_result (JStr ''bank'') (JInt 48) (JInt 2)) 28) = payload_carol"
  by (simp add: enc_data_of_def demo_encrypted_def demo_result_def demo_key_28 utf8_def dq_def
      show_int_def demo_entropy_def hex_def hex_byte_def hex_digit_def payload_carol_def
      Let_def upt_rec)

lemma alice_search_run:
  "search demo_env alice_searches world0 =
      (jsonify 200 (JObj [(''enc_data'', payload_alice)]),
       (after_calls world0 [RevokeExpired, RunSearch (JStr ''cafe'') (JInt 12) (JInt 77),
           WriteFile ''places_output_alice.enc.json''] (am world0))
         \<lparr>rng := 28, files := [(''places_output_alice.enc.json'',
             \<lparr>mtime = 100, content = Inr (JObj [(''enc_data'', payload_alice)])\<rparr>)]\<rparr>)"
proof -
  have d: "get_json alice_searches = Inr (JObj
      [(''query'', JStr ''cafe''), (''lat'', JInt 12), (''lon'', JInt 77), (''owner'', alice)])"
    by (simp add: alice_searches_def post_def)
  show ?thesis
    by (simp add: search_demo [OF d] dict_get_def dict_get_default_def alice_def
        enc_filename_def py_or_def format_value_def open_error_def Let_def demo_result_def
        world0_def store_revoke_expired_def payload_alice_eval [unfolded demo_result_def])
qed

lemma enc_filename_str:
  "s \<noteq> [] \<Longrightarrow> enc_filename env (JStr s) = ''places_output_'' @ s @ ''.enc.json''"
  by (simp add: enc_filename_def py_or_def format_value_def)

lemma enc_filename_absent:
  "map_of d ''owner'' = None \<Longrightarrow>
     enc_filename env (dict_get d ''owner'') = ''places_output_user.enc.json''"
  by (simp add: enc_filename_def py_or_def format_value_def dict_get_def dict_get_default_def)

section \<open>The lengths of the encrypted fields\<close>

text \<open>
  C3. For every successful \<^verbatim>\<open>/search\<close> (answer 200), given the token shape the
  specification gives \<^verbatim>\<open>encrypt_with_key\<close>: the salt is the 16 bytes the generator
  yields first in this request, the nonce has 12 bytes and the tag 16, they and the
  ciphertext are the slices \<open>[0, 12)\<close>, \<open>[12, 28)\<close> and \<open>[28, ...)\<close> of the decoded
  token, and the ciphertext is as long as the UTF-8 encoded JSON text of the search result.
\<close>

theorem search_payload_lengths:
  assumes "token_shape env" and "search env req w = (resp, w')" and "status resp = 200"
  shows "\<exists>d e result plaintext.
      get_json req = Inr (JObj d)
    \<and> body resp = JObj [(''enc_data'', enc_data_of e)]
    \<and> salt e = map (entropy env) [rng w ..< rng w + 16] \<and> length (salt e) = 16
    \<and> length (nonce e) = 12 \<and> length (tag e) = 16
    \<and> (\<exists>key token p raw.
          encrypt_with_key env key plaintext (rng w + 16) = (Inr token, p)
        \<and> b64decode env token = Inr raw
        \<and> nonce e = take 12 raw \<and> tag e = take 16 (drop 12 raw) \<and> ciphertext e = drop 28 raw)
    \<and> run_search env (dict_get d ''query'') (dict_get d ''lat'') (dict_get d ''lon'') = Inr result
    \<and> json_dumps_utf8 env result = Inr plaintext
    \<and> length (ciphertext e) = length plaintext"
proof -
  from search_200 [OF assms(2,3)] obtain d g1 result e p where
    d: "get_json req = Inr (JObj d)"
    and result: "run_search env (dict_get d ''query'') (dict_get d ''lat'') (dict_get d ''lon'')
        = Inr result"
    and e: "encrypt_result env result
         (after_calls w [RevokeExpired,
            RunSearch (dict_get d ''query'') (dict_get d ''lat'') (dict_get d ''lon'')] g1)
        = (Inr e, (after_calls w [RevokeExpired,
            RunSearch (dict_get d ''query'') (dict_get d ''lat'') (dict_get d ''lon'')] g1)
             \<lparr>rng := p\<rparr>)"
    and resp: "resp = jsonify 200 (JObj [(''enc_data'', enc_data_of e)])"
    by blast
  from encrypt_result_Inr [OF e] obtain key pt token p' raw where
    pt: "json_dumps_utf8 env result = Inr pt"
    and token: "encrypt_with_key env key pt (rng w + 16) = (Inr token, p')"
    and raw: "b64decode env token = Inr raw"
    and e_eq: "e = \<lparr>salt = map (entropy env) [rng w ..< rng w + 16], nonce = take 12 raw,
            tag = take 16 (drop 12 raw), ciphertext = drop 28 raw\<rparr>"
    by auto
  from assms(1) token raw have len: "length raw = 28 + length pt"
    unfolding token_shape_def by blast
  from e_eq len have "length (salt e) = 16" "length (nonce e) = 12" "length (tag e) = 16"
    "length (ciphertext e) = length pt"
    by simp_all
  with d resp result pt token raw e_eq show ?thesis by force
qed

theorem search_payload_lengths_witness:
  "status (fst (search demo_env alice_searches world0)) = 200
   \<and> (\<exists>e. body (fst (search demo_env alice_searches world0)) = JObj [(''enc_data'', enc_data_of e)]
        \<and> length (salt e) = 16 \<and> length (nonce e) = 12 \<and> length (tag e) = 16
        \<and> length (ciphertext e) = 64)"
proof -
  let ?d = "[(''query'', JStr ''cafe''), (''lat'', JInt 12), (''lon'', JInt 77), (''owner'', alice)]"
  have d: "get_json alice_searches = Inr (JObj ?d)"
    by (simp add: alice_searches_def post_def)
  have ok: "status (fst (search demo_env alice_searches world0)) = 200"
    by (simp add: search_demo [OF d] dict_get_def dict_get_default_def alice_def
        enc_filename_def py_or_def format_value_def open_error_def Let_def)
  from search_payload_lengths [OF token_shape_demo surjective_pairing ok]
  obtain d' e result plaintext where
    d': "get_json alice_searches = Inr (JObj d')"
    and b: "body (fst (search demo_env alice_searches world0)) = JObj [(''enc_data'', enc_data_of e)]"
    and l: "length (salt e) = 16" "length (nonce e) = 12" "length (tag e) = 16"
    and r: "run_search demo_env (dict_get d' ''query'') (dict_get d' ''lat'') (dict_get d' ''lon'')
        = Inr result"
    and p: "json_dumps_utf8 demo_env result = Inr plaintext"
    and c: "length (ciphertext e) = length plaintext"
    by blast
  from d d' have "d' = ?d" by simp
  with r have "result = demo_result (JStr ''cafe'') (JInt 12) (JInt 77)"
    by (simp add: demo_run_search_def dict_get_def dict_get_default_def)
  with p have "plaintext = utf8 (demo_dumps (demo_result (JStr ''cafe'') (JInt 12) (JInt 77)))"
    by (simp add: demo_json_dumps_utf8_def demo_result_def)
  then have "length plaintext = 64"
    by (simp add: utf8_def demo_result_def dq_def show_int_def)
  with c have "length (ciphertext e) = 64" by simp
  with ok b l show ?thesis by blast
qed

section \<open>The payload is a record of four fields\<close>

text \<open>
  C4. For every successful \<^verbatim>\<open>/search\<close>, the body returned and the document stored
  in the owner's file are the same record \<^verbatim>\<open>{"enc_data": {...}}\<close> whose fields are
  exactly \<^verbatim>\<open>salt_hex\<close>, \<^verbatim>\<open>nonce_hex\<close>, \<^verbatim>\<open>tag_hex\<close> and \<^verbatim>\<open>ciphertext_hex\<close>, in this
  order and each the hexadecimal text of its own byte sequence of this request's
  encryption: the salt drawn from the generator, and the slices \<open>[0, 12)\<close>, \<open>[12, 28)\<close>
  and \<open>[28, ...)\<close> of the decoded token that \<^verbatim>\<open>encrypt_with_key\<close> returned for the
  search result. Reading each text back gives the bytes.
\<close>

theorem search_payload_is_structured:
  assumes "search env req w = (resp, w')" and "status resp = 200"
  shows "\<exists>d g1 result key plaintext token p raw e.
      get_json req = Inr (JObj d)
    \<and> revoke_expired env (am w) = (Inr (), g1)
    \<and> run_search env (dict_get d ''query'') (dict_get d ''lat'') (dict_get d ''lon'') = Inr result
    \<and> derive_kek env (ENCRYPT_PASSPHRASE env) (map (entropy env) [rng w ..< rng w + 16])
        = Inr key
    \<and> json_dumps_utf8 env result = Inr plaintext
    \<and> encrypt_with_key env key plaintext (rng w + 16) = (Inr token, p)
    \<and> b64decode env token = Inr raw
    \<and> e = \<lparr>salt = map (entropy env) [rng w ..< rng w + 16], nonce = take 12 raw,
            tag = take 16 (drop 12 raw), ciphertext = drop 28 raw\<rparr>
    \<and> fst (encrypt_result env result
          (after_calls w [RevokeExpired,
             RunSearch (dict_get d ''query'') (dict_get d ''lat'') (dict_get d ''lon'')] g1))
        = Inr e
    \<and> body resp = JObj [(''enc_data'', JObj
         [(''salt_hex'', JStr (hex (map (entropy env) [rng w ..< rng w + 16]))),
          (''nonce_hex'', JStr (hex (take 12 raw))),
          (''tag_hex'', JStr (hex (take 16 (drop 12 raw)))),
          (''ciphertext_hex'', JStr (hex (drop 28 raw)))])]
    \<and> map_of (files w') (enc_filename env (dict_get d ''owner''))
        = Some \<lparr>mtime = clock w, content = Inr (body resp)\<rparr>
    \<and> fromhex (hex (salt e)) = Some (salt e) \<and> fromhex (hex (nonce e)) = Some (nonce e)
    \<and> fromhex (hex (tag e)) = Some (tag e)
    \<and> fromhex (hex (ciphertext e)) = Some (ciphertext e)"
proof -
  from search_200 [OF assms] obtain d g1 result e p where
    d: "get_json req = Inr (JObj d)"
    and g1: "revoke_expired env (am w) = (Inr (), g1)"
    and result: "run_search env (dict_get d ''query'') (dict_get d ''lat'') (dict_get d ''lon'')
        = Inr result"
    and e: "encrypt_result env result
         (after_calls w [RevokeExpired,
            RunSearch (dict_get d ''query'') (dict_get d ''lat'') (dict_get d ''lon'')] g1)
        = (Inr e, (after_calls w [RevokeExpired,
            RunSearch (dict_get d ''query'') (dict_get d ''lat'') (dict_get d ''lon'')] g1)
             \<lparr>rng := p\<rparr>)"
    and resp: "resp = jsonify 200 (JObj [(''enc_data'', enc_data_of e)])"
    and w': "w' = (after_calls w [RevokeExpired,
               RunSearch (dict_get d ''query'') (dict_get d ''lat'') (dict_get d ''lon''),
               WriteFile (enc_filename env (dict_get d ''owner''))] g1)
            \<lparr>rng := p,
              files := AList.update (enc_filename env (dict_get d ''owner''))
                 \<lparr>mtime = clock w, content = Inr (JObj [(''enc_data'', enc_data_of e)])\<rparr>
                 (files w)\<rparr>"
    by blast
  from encrypt_result_Inr [OF e] obtain key pt token p' raw where
    key: "derive_kek env (ENCRYPT_PASSPHRASE env) (map (entropy env) [rng w ..< rng w + 16])
        = Inr key"
    and pt: "json_dumps_utf8 env result = Inr pt"
    and token: "encrypt_with_key env key pt (rng w + 16) = (Inr token, p')"
    and raw: "b64decode env token = Inr raw"
    and e_eq: "e = \<lparr>salt = map (entropy env) [rng w ..< rng w + 16], nonce = take 12 raw,
            tag = take 16 (drop 12 raw), ciphertext = drop 28 raw\<rparr>"
    by auto
  from e have fst_e: "fst (encrypt_result env result
          (after_calls w [RevokeExpired,
             RunSearch (dict_get d ''query'') (dict_get d ''lat'') (dict_get d ''lon'')] g1))
        = Inr e"
    by simp
  from resp e_eq have body: "body resp = JObj [(''enc_data'', JObj
         [(''salt_hex'', JStr (hex (map (entropy env) [rng w ..< rng w + 16]))),
          (''nonce_hex'', JStr (hex (take 12 raw))),
          (''tag_hex'', JStr (hex (take 16 (drop 12 raw)))),
          (''ciphertext_hex'', JStr (hex (drop 28 raw)))])]"
    by (simp add: enc_data_of_def)
  from w' resp have stored: "map_of (files w') (enc_filename env (dict_get d ''owner''))
        = Some \<lparr>mtime = clock w, content = Inr (body resp)\<rparr>"
    by (simp add: update_conv')
  have hexes: "fromhex (hex (salt e)) = Some (salt e)" "fromhex (hex (nonce e)) = Some (nonce e)"
    "fromhex (hex (tag e)) = Some (tag e)" "fromhex (hex (ciphertext e)) = Some (ciphertext e)"
    by (simp_all only: fromhex_hex)
  show ?thesis
    apply (rule exI [of _ d], rule exI [of _ g1], rule exI [of _ result], rule exI [of _ key])
    apply (rule exI [of _ pt], rule exI [of _ token], rule exI [of _ p'], rule exI [of _ raw])
    apply (rule exI [of _ e])
    apply (intro conjI d g1 result key pt token raw e_eq fst_e body stored hexes)
    done
qed

theorem search_payload_is_structured_witness:
  "body (fst (search demo_env alice_searches world0)) = JObj [(''enc_data'', payload_alice)]
   \<and> map content (map snd (files (snd (search demo_env alice_searches world0))))
       = [Inr (JObj [(''enc_data'', payload_alice)])]
   \<and> (\<exists>raw. payload_alice = JObj
         [(''salt_hex'', JStr (hex (map demo_entropy [0 ..< 16]))),
          (''nonce_hex'', JStr (hex (take 12 raw))),
          (''tag_hex'', JStr (hex (take 16 (drop 12 raw)))),
          (''ciphertext_hex'', JStr (hex (drop 28 raw)))])"
proof -
  have run: "search demo_env alice_searches world0 =
      (jsonify 200 (JObj [(''enc_data'', payload_alice)]),
       (after_calls world0 [RevokeExpired, RunSearch (JStr ''cafe'') (JInt 12) (JInt 77),
           WriteFile ''places_output_alice.enc.json''] (am world0))
         \<lparr>rng := 28, files := [(''places_output_alice.enc.json'',
             \<lparr>mtime = 100, content = Inr (JObj [(''enc_data'', payload_alice)])\<rparr>)]\<rparr>)"
    by (rule alice_search_run)
  then have ok: "status (fst (search demo_env alice_searches world0)) = 200"
    by simp
  have z: "rng world0 = 0" by (simp add: world0_def)
  from search_payload_is_structured [OF surjective_pairing ok]
  obtain raw where "body (fst (search demo_env alice_searches world0))
      = JObj [(''enc_data'', JObj
         [(''salt_hex'', JStr (hex (map (entropy demo_env) [rng world0 ..< rng world0 + 16]))),
          (''nonce_hex'', JStr (hex (take 12 raw))),
          (''tag_hex'', JStr (hex (take 16 (drop 12 raw)))),
          (''ciphertext_hex'', JStr (hex (drop 28 raw)))])]"
    by (elim exE conjE)
  with run have "payload_alice = JObj
         [(''salt_hex'', JStr (hex (map demo_entropy [0 ..< 16]))),
          (''nonce_hex'', JStr (hex (take 12 raw))),
          (''tag_hex'', JStr (hex (take 16 (drop 12 raw)))),
          (''ciphertext_hex'', JStr (hex (drop 28 raw)))]"
    by (simp add: z)
  then have c: "\<exists>raw. payload_alice = JObj
         [(''salt_hex'', JStr (hex (map demo_entropy [0 ..< 16]))),
          (''nonce_hex'', JStr (hex (take 12 raw))),
          (''tag_hex'', JStr (hex (take 16 (drop 12 raw)))),
          (''ciphertext_hex'', JStr (hex (drop 28 raw)))]"
    by (rule exI)
  from run have a: "body (fst (search demo_env alice_searches world0))
      = JObj [(''enc_data'', payload_alice)]"
    by simp
  from run have b: "map content (map snd (files (snd (search demo_env alice_searches world0))))
       = [Inr (JObj [(''enc_data'', payload_alice)])]"
    by simp
  show ?thesis by (intro conjI a b c)
qed

section \<open>One file per search, keyed by the owner\<close>

text \<open>
  C7. A successful \<^verbatim>\<open>/search\<close> makes exactly three calls (the sweep, the search,
  one write), and the write goes to the file \<^verbatim>\<open>places_output_{owner or 'user'}.enc.json\<close>. The file then holds
  the payload returned; it keeps its place in the directory when it existed and is
  listed last otherwise; every file of another name is as it was. For a non-empty
  string owner the name is \<^verbatim>\<open>places_output_\<close> + owner + \<^verbatim>\<open>.enc.json\<close>, and the file
  of any other owner name is untouched.
\<close>

theorem search_writes_one_file:
  assumes "search env req w = (resp, w')" and "status resp = 200"
    and "get_json req = Inr (JObj d)"
  shows "new_events w w'
         = [RevokeExpired,
            RunSearch (dict_get d ''query'') (dict_get d ''lat'') (dict_get d ''lon''),
            WriteFile (enc_filename env (dict_get d ''owner''))]
    \<and> map_of (files w') (enc_filename env (dict_get d ''owner''))
         = Some \<lparr>mtime = clock w, content = Inr (body resp)\<rparr>
    \<and> map fst (files w')
         = (if enc_filename env (dict_get d ''owner'') \<in> set (map fst (files w))
            then map fst (files w)
            else map fst (files w) @ [enc_filename env (dict_get d ''owner'')])
    \<and> (\<forall>name. name \<noteq> enc_filename env (dict_get d ''owner'') \<longrightarrow>
          map_of (files w') name = map_of (files w) name)
    \<and> (\<forall>owner other. dict_get d ''owner'' = JStr owner \<and> owner \<noteq> [] \<and> other \<noteq> owner \<longrightarrow>
          enc_filename env (dict_get d ''owner'') = ''places_output_'' @ owner @ ''.enc.json''
        \<and> map_of (files w') (''places_output_'' @ other @ ''.enc.json'')
            = map_of (files w) (''places_output_'' @ other @ ''.enc.json''))"
proof -
  let ?name = "enc_filename env (dict_get d ''owner'')"
  note ev = search_stores_payload(1) [OF assms]
  note w' = search_stores_payload(2) [OF assms]
  from w' have here: "map_of (files w') ?name = Some \<lparr>mtime = clock w, content = Inr (body resp)\<rparr>"
    by (simp add: update_conv')
  from w' have names: "map fst (files w')
         = (if ?name \<in> set (map fst (files w)) then map fst (files w)
            else map fst (files w) @ [?name])"
    by (simp add: update_keys)
  from w' have others: "\<forall>name. name \<noteq> ?name \<longrightarrow> map_of (files w') name = map_of (files w) name"
    by (simp add: update_conv')
  have "\<forall>owner other. dict_get d ''owner'' = JStr owner \<and> owner \<noteq> [] \<and> other \<noteq> owner \<longrightarrow>
          ?name = ''places_output_'' @ owner @ ''.enc.json''
        \<and> map_of (files w') (''places_output_'' @ other @ ''.enc.json'')
            = map_of (files w) (''places_output_'' @ other @ ''.enc.json'')"
  proof (intro allI impI)
    fix owner other
    assume a: "dict_get d ''owner'' = JStr owner \<and> owner \<noteq> [] \<and> other \<noteq> owner"
    then have n: "?name = ''places_output_'' @ owner @ ''.enc.json''"
      by (simp add: enc_filename_str)
    with a have "''places_output_'' @ other @ ''.enc.json'' \<noteq> ?name" by simp
    with others [THEN spec, of "''places_output_'' @ other @ ''.enc.json''"]
    have "map_of (files w') (''places_output_'' @ other @ ''.enc.json'')
            = map_of (files w) (''places_output_'' @ other @ ''.enc.json'')"
      by (rule mp)
    with n show "?name = ''places_output_'' @ owner @ ''.enc.json''
        \<and> map_of (files w') (''places_output_'' @ other @ ''.enc.json'')
            = map_of (files w) (''places_output_'' @ other @ ''.enc.json'')"
      by (rule conjI)
  qed
  with ev here names others show ?thesis by (intro conjI)
qed

theorem search_writes_one_file_witness:
  "new_events (tick world_two_owners) (snd (search demo_env alice_searches (tick world_two_owners)))
     = [RevokeExpired, RunSearch (JStr ''cafe'') (JInt 12) (JInt 77),
        WriteFile ''places_output_alice.enc.json'']
   \<and> map fst (files (snd (search demo_env alice_searches (tick world_two_owners))))
     = [''places_output_alice.enc.json'', ''places_output_carol.enc.json'']
   \<and> map_of (files (snd (search demo_env alice_searches (tick world_two_owners))))
        ''places_output_alice.enc.json''
     = Some \<lparr>mtime = 103,
         content = Inr (body (fst (search demo_env alice_searches (tick world_two_owners))))\<rparr>
   \<and> map_of (files (snd (search demo_env alice_searches (tick world_two_owners))))
        ''places_output_carol.enc.json''
     = Some \<lparr>mtime = 101, content = Inr (JObj [(''enc_data'', payload_carol)])\<rparr>"
proof -
  let ?d = "[(''query'', JStr ''cafe''), (''lat'', JInt 12), (''lon'', JInt 77), (''owner'', alice)]"
  let ?w = "tick world_two_owners"
  let ?w' = "snd (search demo_env alice_searches ?w)"
  have d: "get_json alice_searches = Inr (JObj ?d)"
    by (simp add: alice_searches_def post_def)
  have o: "dict_get ?d ''owner'' = JStr ''alice''"
    by (simp add: dict_get_def dict_get_default_def alice_def)
  have q: "dict_get ?d ''query'' = JStr ''cafe''" "dict_get ?d ''lat'' = JInt 12"
    "dict_get ?d ''lon'' = JInt 77"
    by (simp_all add: dict_get_def dict_get_default_def)
  have n: "enc_filename demo_env (JStr ''alice'') = ''places_output_alice.enc.json''"
    by (simp add: enc_filename_str)
  have run: "search demo_env alice_searches ?w =
    (jsonify 200 (JObj [(''enc_data'', enc_data_of
        (demo_encrypted (demo_result (JStr ''cafe'') (JInt 12) (JInt 77)) (rng ?w)))]),
     (after_calls ?w [RevokeExpired, RunSearch (JStr ''cafe'') (JInt 12) (JInt 77),
          WriteFile ''places_output_alice.enc.json''] (snd (store_revoke_expired (am ?w))))
       \<lparr>rng := rng ?w + 28,
         files := AList.update ''places_output_alice.enc.json''
           \<lparr>mtime = clock ?w, content = Inr (JObj [(''enc_data'', enc_data_of
              (demo_encrypted (demo_result (JStr ''cafe'') (JInt 12) (JInt 77)) (rng ?w)))])\<rparr>
           (files ?w)\<rparr>)"
    by (simp add: search_demo [OF d] q o n open_error_def Let_def)
  then have ok: "status (fst (search demo_env alice_searches ?w)) = 200"
    by simp
  have w: "clock ?w = 103"
    "map fst (files ?w) = [''places_output_alice.enc.json'', ''places_output_carol.enc.json'']"
    "map_of (files ?w) ''places_output_carol.enc.json''
      = Some \<lparr>mtime = 101, content = Inr (JObj [(''enc_data'', payload_carol)])\<rparr>"
    by (simp_all add: tick_def world_two_owners_def)
  note main = search_writes_one_file [OF surjective_pairing ok d]
  from main [THEN conjunct1]
  have a: "new_events ?w ?w'
       = [RevokeExpired, RunSearch (JStr ''cafe'') (JInt 12) (JInt 77),
          WriteFile ''places_output_alice.enc.json'']"
    by (simp add: q o n)
  from main [THEN conjunct2, THEN conjunct2, THEN conjunct1]
  have b: "map fst (files ?w')
     = [''places_output_alice.enc.json'', ''places_output_carol.enc.json'']"
    by (simp add: o n w)
  from main [THEN conjunct2, THEN conjunct1]
  have c: "map_of (files ?w') ''places_output_alice.enc.json''
     = Some \<lparr>mtime = 103, content = Inr (body (fst (search demo_env alice_searches ?w)))\<rparr>"
    by (simp add: o n w)
  have other: "dict_get ?d ''owner'' = JStr ''alice'' \<and> ''alice'' \<noteq> [] \<and> ''carol'' \<noteq> ''alice''"
    by (simp add: o)
  from main [THEN conjunct2, THEN conjunct2, THEN conjunct2, THEN conjunct2,
      THEN spec, THEN spec, THEN mp, OF other, THEN conjunct2]
  have e: "map_of (files ?w') ''places_output_carol.enc.json''
     = Some \<lparr>mtime = 101, content = Inr (JObj [(''enc_data'', payload_carol)])\<rparr>"
    by (simp add: w)
  show ?thesis by (intro conjI a b c e)
qed

section \<open>A search without an owner\<close>

text \<open>
  C10. A \<^verbatim>\<open>/search\<close> request whose body has no \<^verbatim>\<open>owner\<close> key, a non-empty query
  and coordinates that are not null is never answered 400. Whenever the sweep, the
  search and the encryption return, it is answered 200 with the payload, after exactly
  one write, to \<^verbatim>\<open>places_output_user.enc.json\<close>, which then holds that payload. The
  next such request, under the same condition, is answered 200 too and leaves its own
  payload in that file in place of the first.
\<close>

theorem search_without_owner:
  assumes "get_json req = Inr (JObj d)" and "map_of d ''owner'' = None"
    and "truthy (dict_get d ''query'')"
    and "dict_get d ''lat'' \<noteq> JNull" and "dict_get d ''lon'' \<noteq> JNull"
    and "search env req w = (resp, w')"
  shows "status resp \<noteq> 400
    \<and> (\<forall>g1 result e w1.
          revoke_expired env (am w) = (Inr (), g1)
          \<and> run_search env (dict_get d ''query'') (dict_get d ''lat'') (dict_get d ''lon'')
              = Inr result
          \<and> encrypt_result env result
               (after_calls w [RevokeExpired,
                  RunSearch (dict_get d ''query'') (dict_get d ''lat'') (dict_get d ''lon'')] g1)
              = (Inr e, w1) \<longrightarrow>
            resp = jsonify 200 (JObj [(''enc_data'', enc_data_of e)])
          \<and> new_events w w'
              = [RevokeExpired,
                 RunSearch (dict_get d ''query'') (dict_get d ''lat'') (dict_get d ''lon''),
                 WriteFile ''places_output_user.enc.json'']
          \<and> map_of (files w') ''places_output_user.enc.json''
              = Some \<lparr>mtime = clock w, content = Inr (JObj [(''enc_data'', enc_data_of e)])\<rparr>)
    \<and> (status resp = 200 \<longrightarrow>
          WriteFile ''places_output_user.enc.json'' \<in> set (new_events w w')
        \<and> map_of (files w') ''places_output_user.enc.json''
            = Some \<lparr>mtime = clock w, content = Inr (body resp)\<rparr>
        \<and> (\<forall>req2 d2 resp2 w2.
              get_json req2 = Inr (JObj d2) \<and> map_of d2 ''owner'' = None
              \<and> search env req2 w' = (resp2, w2) \<and> status resp2 = 200 \<longrightarrow>
              map_of (files w2) ''places_output_user.enc.json''
                = Some \<lparr>mtime = clock w', content = Inr (body resp2)\<rparr>))
    \<and> (\<forall>req2 d2 g2 result2 e2 w3 resp2 w2.
          get_json req2 = Inr (JObj d2) \<and> map_of d2 ''owner'' = None
          \<and> truthy (dict_get d2 ''query'')
          \<and> dict_get d2 ''lat'' \<noteq> JNull \<and> dict_get d2 ''lon'' \<noteq> JNull
          \<and> revoke_expired env (am w') = (Inr (), g2)
          \<and> run_search env (dict_get d2 ''query'') (dict_get d2 ''lat'') (dict_get d2 ''lon'')
              = Inr result2
          \<and> encrypt_result env result2
               (after_calls w' [RevokeExpired,
                  RunSearch (dict_get d2 ''query'') (dict_get d2 ''lat'') (dict_get d2 ''lon'')]
                  g2)
              = (Inr e2, w3)
          \<and> search env req2 w' = (resp2, w2) \<longrightarrow>
            resp2 = jsonify 200 (JObj [(''enc_data'', enc_data_of e2)])
          \<and> map_of (files w2) ''places_output_user.enc.json''
              = Some \<lparr>mtime = clock w', content = Inr (JObj [(''enc_data'', enc_data_of e2)])\<rparr>)"
proof -
  have stored: "map_of (files v') ''places_output_user.enc.json''
        = Some \<lparr>mtime = clock v, content = Inr (body r)\<rparr>
      \<and> WriteFile ''places_output_user.enc.json'' \<in> set (new_events v v')"
    if "get_json rq = Inr (JObj c)" and "map_of c ''owner'' = None"
      and "search env rq v = (r, v')" and "status r = 200" for rq c v r v'
  proof -
    from search_stores_payload [OF that(3,4,1)] that(2)
    show ?thesis by (simp add: enc_filename_absent update_conv')
  qed
  have pinned: "r = jsonify 200 (JObj [(''enc_data'', enc_data_of e)])
      \<and> new_events v v'
          = [RevokeExpired,
             RunSearch (dict_get c ''query'') (dict_get c ''lat'') (dict_get c ''lon''),
             WriteFile ''places_output_user.enc.json'']
      \<and> map_of (files v') ''places_output_user.enc.json''
          = Some \<lparr>mtime = clock v, content = Inr (JObj [(''enc_data'', enc_data_of e)])\<rparr>"
    if "get_json rq = Inr (JObj c)" and "map_of c ''owner'' = None"
      and "truthy (dict_get c ''query'')"
      and "dict_get c ''lat'' \<noteq> JNull" and "dict_get c ''lon'' \<noteq> JNull"
      and "revoke_expired env (am v) = (Inr (), g)"
      and "run_search env (dict_get c ''query'') (dict_get c ''lat'') (dict_get c ''lon'')
            = Inr result"
      and "encrypt_result env result
             (after_calls v [RevokeExpired,
                RunSearch (dict_get c ''query'') (dict_get c ''lat'') (dict_get c ''lon'')] g)
            = (Inr e, v1)"
      and "search env rq v = (r, v')" for rq c v r v' g result e v1
  proof -
    have o: "open_error (enc_filename env (dict_get c ''owner'')) = None"
      by (simp add: enc_filename_absent [OF that(2)] open_error_user)
    note ret = search_returns [OF that(1) that(3-8) o]
    from ret(1) that(9) have "r = jsonify 200 (JObj [(''enc_data'', enc_data_of e)])"
      by simp
    moreover from ret(2) that(9) have "new_events v v'
          = [RevokeExpired,
             RunSearch (dict_get c ''query'') (dict_get c ''lat'') (dict_get c ''lon''),
             WriteFile ''places_output_user.enc.json'']"
      by (simp add: enc_filename_absent [OF that(2)])
    moreover from ret(3) that(9) have "map_of (files v') ''places_output_user.enc.json''
          = Some \<lparr>mtime = clock v, content = Inr (JObj [(''enc_data'', enc_data_of e)])\<rparr>"
      by (simp add: enc_filename_absent [OF that(2)] update_conv')
    ultimately show ?thesis by (intro conjI)
  qed
  from assms have c1: "status resp \<noteq> 400"
    by (auto simp add: search_cases Let_def split: prod.splits sum.splits option.splits)
  have c2: "\<forall>g1 result e w1.
          revoke_expired env (am w) = (Inr (), g1)
          \<and> run_search env (dict_get d ''query'') (dict_get d ''lat'') (dict_get d ''lon'')
              = Inr result
          \<and> encrypt_result env result
               (after_calls w [RevokeExpired,
                  RunSearch (dict_get d ''query'') (dict_get d ''lat'') (dict_get d ''lon'')] g1)
              = (Inr e, w1) \<longrightarrow>
            resp = jsonify 200 (JObj [(''enc_data'', enc_data_of e)])
          \<and> new_events w w'
              = [RevokeExpired,
                 RunSearch (dict_get d ''query'') (dict_get d ''lat'') (dict_get d ''lon''),
                 WriteFile ''places_output_user.enc.json'']
          \<and> map_of (files w') ''places_output_user.enc.json''
              = Some \<lparr>mtime = clock w, content = Inr (JObj [(''enc_data'', enc_data_of e)])\<rparr>"
  proof (intro allI impI)
    fix g1 result e w1
    assume "revoke_expired env (am w) = (Inr (), g1)
          \<and> run_search env (dict_get d ''query'') (dict_get d ''lat'') (dict_get d ''lon'')
              = Inr result
          \<and> encrypt_result env result
               (after_calls w [RevokeExpired,
                  RunSearch (dict_get d ''query'') (dict_get d ''lat'') (dict_get d ''lon'')] g1)
              = (Inr e, w1)"
    then have "revoke_expired env (am w) = (Inr (), g1)"
      and "run_search env (dict_get d ''query'') (dict_get d ''lat'') (dict_get d ''lon'')
              = Inr result"
      and "encrypt_result env result
               (after_calls w [RevokeExpired,
                  RunSearch (dict_get d ''query'') (dict_get d ''lat'') (dict_get d ''lon'')] g1)
              = (Inr e, w1)"
      by simp_all
    from pinned [OF assms(1-5) this assms(6)]
    show "resp = jsonify 200 (JObj [(''enc_data'', enc_data_of e)])
          \<and> new_events w w'
              = [RevokeExpired,
                 RunSearch (dict_get d ''query'') (dict_get d ''lat'') (dict_get d ''lon''),
                 WriteFile ''places_output_user.enc.json'']
          \<and> map_of (files w') ''places_output_user.enc.json''
              = Some \<lparr>mtime = clock w, content = Inr (JObj [(''enc_data'', enc_data_of e)])\<rparr>" .
  qed
  have c3a: "status resp = 200 \<longrightarrow>
          WriteFile ''places_output_user.enc.json'' \<in> set (new_events w w')
        \<and> map_of (files w') ''places_output_user.enc.json''
            = Some \<lparr>mtime = clock w, content = Inr (body resp)\<rparr>"
    using stored [OF assms(1,2,6)] by simp
  have c3b: "\<forall>req2 d2 resp2 w2.
              get_json req2 = Inr (JObj d2) \<and> map_of d2 ''owner'' = None
              \<and> search env req2 w' = (resp2, w2) \<and> status resp2 = 200 \<longrightarrow>
              map_of (files w2) ''places_output_user.enc.json''
                = Some \<lparr>mtime = clock w', content = Inr (body resp2)\<rparr>"
  proof (intro allI impI)
    fix req2 d2 resp2 w2
    assume "get_json req2 = Inr (JObj d2) \<and> map_of d2 ''owner'' = None
        \<and> search env req2 w' = (resp2, w2) \<and> status resp2 = 200"
    then have "get_json req2 = Inr (JObj d2)" and "map_of d2 ''owner'' = None"
      and "search env req2 w' = (resp2, w2)" and "status resp2 = 200"
      by simp_all
    from stored [OF this]
    show "map_of (files w2) ''places_output_user.enc.json''
        = Some \<lparr>mtime = clock w', content = Inr (body resp2)\<rparr>"
      by simp
  qed
  have c4: "\<forall>req2 d2 g2 result2 e2 w3 resp2 w2.
          get_json req2 = Inr (JObj d2) \<and> map_of d2 ''owner'' = None
          \<and> truthy (dict_get d2 ''query'')
          \<and> dict_get d2 ''lat'' \<noteq> JNull \<and> dict_get d2 ''lon'' \<noteq> JNull
          \<and> revoke_expired env (am w') = (Inr (), g2)
          \<and> run_search env (dict_get d2 ''query'') (dict_get d2 ''lat'') (dict_get d2 ''lon'')
              = Inr result2
          \<and> encrypt_result env result2
               (after_calls w' [RevokeExpired,
                  RunSearch (dict_get d2 ''query'') (dict_get d2 ''lat'') (dict_get d2 ''lon'')]
                  g2)
              = (Inr e2, w3)
          \<and> search env req2 w' = (resp2, w2) \<longrightarrow>
            resp2 = jsonify 200 (JObj [(''enc_data'', enc_data_of e2)])
          \<and> map_of (files w2) ''places_output_user.enc.json''
              = Some \<lparr>mtime = clock w', content = Inr (JObj [(''enc_data'', enc_data_of e2)])\<rparr>"
  proof (intro allI impI)
    fix req2 d2 g2 result2 e2 w3 resp2 w2
    assume "get_json req2 = Inr (JObj d2) \<and> map_of d2 ''owner'' = None
          \<and> truthy (dict_get d2 ''query'')
          \<and> dict_get d2 ''lat'' \<noteq> JNull \<and> dict_get d2 ''lon'' \<noteq> JNull
          \<and> revoke_expired env (am w') = (Inr (), g2)
          \<and> run_search env (dict_get d2 ''query'') (dict_get d2 ''lat'') (dict_get d2 ''lon'')
              = Inr result2
          \<and> encrypt_result env result2
               (after_calls w' [RevokeExpired,
                  RunSearch (dict_get d2 ''query'') (dict_get d2 ''lat'') (dict_get d2 ''lon'')]
                  g2)
              = (Inr e2, w3)
          \<and> search env req2 w' = (resp2, w2)"
    then have "get_json req2 = Inr (JObj d2)" and "map_of d2 ''owner'' = None"
      and "truthy (dict_get d2 ''query'')"
      and "dict_get d2 ''lat'' \<noteq> JNull" and "dict_get d2 ''lon'' \<noteq> JNull"
      and "revoke_expired env (am w') = (Inr (), g2)"
      and "run_search env (dict_get d2 ''query'') (dict_get d2 ''lat'') (dict_get d2 ''lon'')
              = Inr result2"
      and "encrypt_result env result2
               (after_calls w' [RevokeExpired,
                  RunSearch (dict_get d2 ''query'') (dict_get d2 ''lat'') (dict_get d2 ''lon'')]
                  g2)
              = (Inr e2, w3)"
      and "search env req2 w' = (resp2, w2)"
      by simp_all
    from pinned [OF this]
    show "resp2 = jsonify 200 (JObj [(''enc_data'', enc_data_of e2)])
          \<and> map_of (files w2) ''places_output_user.enc.json''
              = Some \<lparr>mtime = clock w', content = Inr (JObj [(''enc_data'', enc_data_of e2)])\<rparr>"
      by simp
  qed
  from c3a c3b have c3: "status resp = 200 \<longrightarrow>
          WriteFile ''places_output_user.enc.json'' \<in> set (new_events w w')
        \<and> map_of (files w') ''places_output_user.enc.json''
            = Some \<lparr>mtime = clock w, content = Inr (body resp)\<rparr>
        \<and> (\<forall>req2 d2 resp2 w2.
              get_json req2 = Inr (JObj d2) \<and> map_of d2 ''owner'' = None
              \<and> search env req2 w' = (resp2, w2) \<and> status resp2 = 200 \<longrightarrow>
              map_of (files w2) ''places_output_user.enc.json''
                = Some \<lparr>mtime = clock w', content = Inr (body resp2)\<rparr>)"
    by (intro impI conjI) (elim impE, assumption, elim conjE, assumption)+
  show ?thesis by (intro conjI c1 c2 c3 c4)
qed

theorem search_without_owner_witness:
  "fst (search demo_env anonymous_search world0)
       = jsonify 200 (JObj [(''enc_data'', payload_alice)])
   \<and> fst (search demo_env another_anonymous_search (snd (search demo_env anonymous_search world0)))
       = jsonify 200 (JObj [(''enc_data'', payload_carol)])
   \<and> map fst (files (snd (search demo_env another_anonymous_search
        (snd (search demo_env anonymous_search world0)))))
       = [''places_output_user.enc.json'']
   \<and> map content (map snd (files (snd (search demo_env another_anonymous_search
        (snd (search demo_env anonymous_search world0))))))
       = [Inr (JObj [(''enc_data'', payload_carol)])]
   \<and> payload_carol \<noteq> payload_alice"
proof -
  let ?d1 = "[(''query'', JStr ''cafe''), (''lat'', JInt 12), (''lon'', JInt 77)]"
  let ?d2 = "[(''query'', JStr ''bank''), (''lat'', JInt 48), (''lon'', JInt 2)]"
  let ?w1 = "snd (search demo_env anonymous_search world0)"
  let ?w2 = "snd (search demo_env another_anonymous_search ?w1)"
  let ?r1 = "fst (search demo_env anonymous_search world0)"
  let ?r2 = "fst (search demo_env another_anonymous_search ?w1)"
  let ?res1 = "demo_result (JStr ''cafe'') (JInt 12) (JInt 77)"
  let ?res2 = "demo_result (JStr ''bank'') (JInt 48) (JInt 2)"
  have d1: "get_json anonymous_search = Inr (JObj ?d1)"
    by (simp add: anonymous_search_def post_def)
  have d2: "get_json another_anonymous_search = Inr (JObj ?d2)"
    by (simp add: another_anonymous_search_def post_def)
  have m: "map_of ?d1 ''owner'' = None" "map_of ?d2 ''owner'' = None"
    by simp_all
  have q1: "dict_get ?d1 ''query'' = JStr ''cafe''" "dict_get ?d1 ''lat'' = JInt 12"
    "dict_get ?d1 ''lon'' = JInt 77"
    by (simp_all add: dict_get_def dict_get_default_def)
  have q2: "dict_get ?d2 ''query'' = JStr ''bank''" "dict_get ?d2 ''lat'' = JInt 48"
    "dict_get ?d2 ''lon'' = JInt 2"
    by (simp_all add: dict_get_def dict_get_default_def)
  have t1: "truthy (dict_get ?d1 ''query'')" "dict_get ?d1 ''lat'' \<noteq> JNull"
    "dict_get ?d1 ''lon'' \<noteq> JNull"
    by (simp_all add: q1)
  have t2: "truthy (dict_get ?d2 ''query'')" "dict_get ?d2 ''lat'' \<noteq> JNull"
    "dict_get ?d2 ''lon'' \<noteq> JNull"
    by (simp_all add: q2)
  have ff: "float_free ?res1" "float_free ?res2"
    by (simp_all add: demo_result_def)
  note main = search_without_owner [OF d1 m(1) t1 surjective_pairing,
      where env = demo_env and w = world0]
  have z: "rng world0 = 0" by (simp add: world0_def)
  have h1: "revoke_expired demo_env (am world0) = (Inr (), snd (store_revoke_expired (am world0)))
      \<and> run_search demo_env (dict_get ?d1 ''query'') (dict_get ?d1 ''lat'') (dict_get ?d1 ''lon'')
          = Inr ?res1
      \<and> encrypt_result demo_env ?res1
           (after_calls world0 [RevokeExpired,
              RunSearch (dict_get ?d1 ''query'') (dict_get ?d1 ''lat'') (dict_get ?d1 ''lon'')]
              (snd (store_revoke_expired (am world0))))
          = (Inr (demo_encrypted ?res1 0),
             (after_calls world0 [RevokeExpired,
                RunSearch (dict_get ?d1 ''query'') (dict_get ?d1 ''lat'') (dict_get ?d1 ''lon'')]
                (snd (store_revoke_expired (am world0))))\<lparr>rng := 28\<rparr>)"
    by (simp add: q1 store_revoke_expired_def demo_run_search_def encrypt_result_demo [OF ff(1)] z)
  note p1 = main [THEN conjunct2, THEN conjunct1, THEN spec, THEN spec, THEN spec, THEN spec,
      THEN mp, OF h1]
  have pin1: "?r1 = jsonify 200 (JObj [(''enc_data'', enc_data_of (demo_encrypted ?res1 0))])"
    and file1: "map_of (files ?w1) ''places_output_user.enc.json''
      = Some \<lparr>mtime = clock world0,
          content = Inr (JObj [(''enc_data'', enc_data_of (demo_encrypted ?res1 0))])\<rparr>"
    by (rule p1 [THEN conjunct1], rule p1 [THEN conjunct2, THEN conjunct2])
  from pin1 have a: "?r1 = jsonify 200 (JObj [(''enc_data'', payload_alice)])"
    by (simp only: payload_alice_eval)
  then have ok1: "status ?r1 = 200" by simp
  have run1: "search demo_env anonymous_search world0 =
      (jsonify 200 (JObj [(''enc_data'', payload_alice)]),
       (after_calls world0 [RevokeExpired, RunSearch (JStr ''cafe'') (JInt 12) (JInt 77),
           WriteFile ''places_output_user.enc.json''] (am world0))
         \<lparr>rng := 28, files := [(''places_output_user.enc.json'',
             \<lparr>mtime = 100, content = Inr (JObj [(''enc_data'', payload_alice)])\<rparr>)]\<rparr>)"
    by (simp add: search_demo [OF d1] q1 enc_filename_absent [OF m(1)] open_error_def Let_def
        world0_def store_revoke_expired_def payload_alice_eval)
  from run1 have w1: "rng ?w1 = 28" "files ?w1 = [(''places_output_user.enc.json'',
             \<lparr>mtime = 100, content = Inr (JObj [(''enc_data'', payload_alice)])\<rparr>)]"
    "clock ?w1 = 100"
    by (simp_all add: world0_def)
  have h2: "get_json another_anonymous_search = Inr (JObj ?d2) \<and> map_of ?d2 ''owner'' = None
      \<and> truthy (dict_get ?d2 ''query'')
      \<and> dict_get ?d2 ''lat'' \<noteq> JNull \<and> dict_get ?d2 ''lon'' \<noteq> JNull
      \<and> revoke_expired demo_env (am ?w1) = (Inr (), snd (store_revoke_expired (am ?w1)))
      \<and> run_search demo_env (dict_get ?d2 ''query'') (dict_get ?d2 ''lat'') (dict_get ?d2 ''lon'')
          = Inr ?res2
      \<and> encrypt_result demo_env ?res2
           (after_calls ?w1 [RevokeExpired,
              RunSearch (dict_get ?d2 ''query'') (dict_get ?d2 ''lat'') (dict_get ?d2 ''lon'')]
              (snd (store_revoke_expired (am ?w1))))
          = (Inr (demo_encrypted ?res2 28),
             (after_calls ?w1 [RevokeExpired,
                RunSearch (dict_get ?d2 ''query'') (dict_get ?d2 ''lat'') (dict_get ?d2 ''lon'')]
                (snd (store_revoke_expired (am ?w1))))\<lparr>rng := 56\<rparr>)
      \<and> search demo_env another_anonymous_search ?w1 = (?r2, ?w2)"
    by (simp add: d2 t2 q2 store_revoke_expired_def demo_run_search_def
        encrypt_result_demo [OF ff(2)] w1(1))
  note p2 = main [THEN conjunct2, THEN conjunct2, THEN conjunct2,
      THEN spec, THEN spec, THEN spec, THEN spec, THEN spec, THEN spec, THEN spec, THEN spec,
      THEN mp, OF h2]
  have pin2: "?r2 = jsonify 200 (JObj [(''enc_data'', enc_data_of (demo_encrypted ?res2 28))])"
    and file2: "map_of (files ?w2) ''places_output_user.enc.json''
      = Some \<lparr>mtime = clock ?w1,
          content = Inr (JObj [(''enc_data'', enc_data_of (demo_encrypted ?res2 28))])\<rparr>"
    by (rule p2 [THEN conjunct1], rule p2 [THEN conjunct2])
  from pin2 have b: "?r2 = jsonify 200 (JObj [(''enc_data'', payload_carol)])"
    by (simp only: payload_carol_eval)
  then have ok2: "status ?r2 = 200" by simp
  from main [THEN conjunct2, THEN conjunct2, THEN conjunct1, THEN mp, OF ok1,
      THEN conjunct2, THEN conjunct2,
      THEN spec, THEN spec, THEN spec, THEN spec, THEN mp,
      of another_anonymous_search ?d2 ?r2 ?w2] d2 m(2) ok2
  have stored: "map_of (files ?w2) ''places_output_user.enc.json''
      = Some \<lparr>mtime = clock ?w1, content = Inr (body ?r2)\<rparr>"
    by simp
  have names: "map fst (files ?w2) = [''places_output_user.enc.json'']"
    using search_stores_payload(2) [OF surjective_pairing ok2 d2]
    by (simp add: enc_filename_absent [OF m(2)] w1(2) update_keys)
  from names obtain f where f: "files ?w2 = [(''places_output_user.enc.json'', f)]"
    by (cases "files ?w2") auto
  with stored have "f = \<lparr>mtime = clock ?w1, content = Inr (body ?r2)\<rparr>"
    by simp
  with f b have contents: "map content (map snd (files ?w2))
      = [Inr (JObj [(''enc_data'', payload_carol)])]"
    by simp
  have differ: "payload_carol \<noteq> payload_alice"
    by (simp add: payload_alice_def payload_carol_def)
  show ?thesis by (intro conjI a b names contents differ)
qed

section \<open>Which payload a viewer gets\<close>

text \<open>The state \<open>world_two_owners\<close> is reached by the handlers themselves.\<close>

lemma world_two_owners_reached:
  "(let w1 = snd (search demo_env alice_searches world0);
        w2 = snd (search demo_env carol_searches (tick w1));
        w3 = snd (grant_access demo_env alice_grants_bob (tick w2))
    in w3\<lparr>am := (am w3)\<lparr>now := 1\<rparr>, trace := []\<rparr>) = world_two_owners"
proof -
  let ?fa = "(''places_output_alice.enc.json'',
      \<lparr>mtime = 100, content = Inr (JObj [(''enc_data'', payload_alice)])\<rparr>)"
  let ?fc = "(''places_output_carol.enc.json'',
      \<lparr>mtime = 101, content = Inr (JObj [(''enc_data'', payload_carol)])\<rparr>)"
  let ?t1 = "[RevokeExpired, RunSearch (JStr ''cafe'') (JInt 12) (JInt 77),
      WriteFile ''places_output_alice.enc.json'']"
  let ?t2 = "?t1 @ [RevokeExpired, RunSearch (JStr ''bank'') (JInt 48) (JInt 2),
      WriteFile ''places_output_carol.enc.json'']"
  let ?w1 = "\<lparr>am = \<lparr>grants = [], now = 0\<rparr>, files = [?fa], clock = 101, rng = 28,
      trace = ?t1\<rparr>"
  let ?w2 = "\<lparr>am = \<lparr>grants = [], now = 0\<rparr>, files = [?fa, ?fc], clock = 102, rng = 56,
      trace = ?t2\<rparr>"
  have s1: "tick (snd (search demo_env alice_searches world0)) = ?w1"
    unfolding alice_search_run
    by (simp add: world0_def tick_def after_calls_def logged_def)
  have d: "get_json carol_searches = Inr (JObj
      [(''query'', JStr ''bank''), (''lat'', JInt 48), (''lon'', JInt 2), (''owner'', carol)])"
    by (simp add: carol_searches_def post_def)
  have s2: "tick (snd (search demo_env carol_searches ?w1)) = ?w2"
    by (simp add: search_demo [OF d] dict_get_def dict_get_default_def carol_def
        enc_filename_def py_or_def format_value_def open_error_def Let_def demo_result_def
        tick_def store_revoke_expired_def payload_carol_eval [unfolded demo_result_def]
        after_calls_def logged_def)
  have s3: "(snd (grant_access demo_env alice_grants_bob ?w2))
      \<lparr>am := (am (snd (grant_access demo_env alice_grants_bob ?w2)))\<lparr>now := 1\<rparr>, trace := []\<rparr>
      = world_two_owners"
    by (simp add: grant_access_cases alice_grants_bob_def post_def dict_get_def
        dict_get_default_def alice_def bob_def store_grant_access_def
        world_two_owners_def after_calls_def logged_def Let_def)
  show ?thesis
    unfolding Let_def s1 s2 by (rule s3)
qed

text \<open>
  What an authorized viewer is given is the content of the file modified last; the owner
  named in the request plays no part in the choice.
\<close>

lemma view_location_released_payload:
  assumes "get_json req = Inr (JObj d)"
    and "truthy (dict_get d ''owner'')" and "truthy (dict_get d ''viewer'')"
    and "revoke_expired env (am w) = (Inr (), g1)"
    and "is_access_allowed env (dict_get d ''owner'') (dict_get d ''viewer'') g1 = (Inr True, g2)"
    and "filter (\<lambda>(n, f). matches_enc n) (files w) \<noteq> []"
    and "content (snd (last (sorted_by_mtime (filter (\<lambda>(n, f). matches_enc n) (files w)))))
           = Inr (JObj c)"
  shows "fst (view_location env req w)
     = jsonify 200 (JObj [(''enc_data'', dict_get_default c ''enc_data'' (JObj c))])"
  using assms by (simp add: view_location_cases release_latest_apply Let_def)

text \<open>
  C2 says that an authorized viewer gets the latest payload of the owner named in the
  request. The handler takes the file modified last among all owners' files: Bob, whom
  only Alice granted access, asks for Alice's location and is given Carol's payload,
  while Alice's own payload is in the directory.
\<close>

theorem view_location_releases_latest_of_any_owner:
  "fst (view_location demo_env bob_views_alice world_two_owners)
     = jsonify 200 (JObj [(''enc_data'', payload_carol)])
   \<and> new_events world_two_owners (snd (view_location demo_env bob_views_alice world_two_owners))
     = [RevokeExpired, IsAccessAllowed alice bob, Glob, ReadFile ''places_output_carol.enc.json'']
   \<and> map_of (files world_two_owners) ''places_output_alice.enc.json''
     = Some \<lparr>mtime = 100, content = Inr (JObj [(''enc_data'', payload_alice)])\<rparr>
   \<and> payload_carol \<noteq> payload_alice"
proof -
  have "view_location demo_env bob_views_alice world_two_owners
      = (jsonify 200 (JObj [(''enc_data'', payload_carol)]),
         after_calls world_two_owners
           [RevokeExpired, IsAccessAllowed alice bob, Glob,
            ReadFile ''places_output_carol.enc.json''] (am world_two_owners))"
    by (simp add: view_location_cases release_latest_apply scenario_defs store_defs
        matches_enc_def sorted_by_mtime_def dict_get_def dict_get_default_def Let_def
        checked_def)
  moreover have "map_of (files world_two_owners) ''places_output_alice.enc.json''
     = Some \<lparr>mtime = 100, content = Inr (JObj [(''enc_data'', payload_alice)])\<rparr>"
    by (simp add: world_two_owners_def)
  moreover have "payload_carol \<noteq> payload_alice"
    by (simp add: payload_alice_def payload_carol_def)
  ultimately show ?thesis by simp
qed

end
